theory Spec2Isabelle
  imports Complex_Main
begin

section \<open>UWB multilateration: a shallow embedding of the positioning code\<close>

text \<open>
  The repository holds several near-duplicate sketches that estimate the 2D position of a
  UWB tag from its distances to four (or more) fixed anchors. Each sketch that a verified
  property refers to is embedded below, function by function.

  Conventions of the embedding:
  \<^item> C \<open>float\<close> and JavaScript numbers are modelled by \<open>real\<close>: the arithmetic is exact,
    rounding is not modelled. \<open>sqrt\<close> is the real square root.
  \<^item> The global variables of a sketch form a record that every function takes and
    returns.
  \<^item> The constant anchor tables \<open>anchor_x\<close>, \<open>anchor_y\<close> of a sketch are passed as a
    \<open>layout\<close> argument; \<open>default_layout\<close> is the table written in the sources.
  \<^item> A \<open>void\<close> function with early returns yields, beside the new state, an outcome
    that names the return that was taken.
\<close>

subsection \<open>Anchor layout and shared geometry\<close>

record layout =
  anchor_x :: "real list"
  anchor_y :: "real list"

definition default_layout :: layout where
  "default_layout = \<lparr>anchor_x = [0, 0, 380, 380], anchor_y = [0, 600, 600, 0]\<rparr>"

definition calculateDistance :: "real \<Rightarrow> real \<Rightarrow> real \<Rightarrow> real \<Rightarrow> real" where
  "calculateDistance x1 y1 x2 y2 = sqrt ((x2 - x1) * (x2 - x1) + (y2 - y1) * (y2 - y1))"

definition checkTriangleInequality :: "real \<Rightarrow> real \<Rightarrow> real \<Rightarrow> bool" where
  "checkTriangleInequality a b c \<longleftrightarrow> (a + b > c) \<and> (a + c > b) \<and> (b + c > a)"

text \<open>
  How a position calculation ends. Every variant below returns early, without a position,
  on some of these conditions; \<open>Position x y\<close> is the normal end with the raw position
  that was computed.
\<close>

datatype outcome =
    NoUpdateNeeded
  | NeedThreeAnchors
  | NeedThreeDistances
  | NeedAllDistances
  | NoValidSolutions
  | OutsideBoundaries
  | DivisionByZero
  | Position real real

definition valid_outcome :: "outcome \<Rightarrow> bool" where
  "valid_outcome r = (case r of Position x y \<Rightarrow> True | _ \<Rightarrow> False)"

subsection \<open>The robust multilateration sketch (robust\_multilateration\_test.ino)\<close>

text \<open>
  The globals that every four-anchor sketch declares: the four measured distances and the
  published position.
\<close>

record ranging =
  dist_to_a0 :: real
  dist_to_a1 :: real
  dist_to_a2 :: real
  dist_to_a3 :: real
  positionX :: real
  positionY :: real

record sketch = ranging +
  quality_a0 :: real
  quality_a1 :: real
  quality_a2 :: real
  quality_a3 :: real
  kalman_x :: real
  kalman_y :: real
  kalman_p_x :: real
  kalman_p_y :: real
  kalman_q :: real
  kalman_r :: real

text \<open>The initial values of the global variables.\<close>

definition initial_sketch :: sketch where
  "initial_sketch =
     \<lparr>dist_to_a0 = 0, dist_to_a1 = 0, dist_to_a2 = 0, dist_to_a3 = 0,
      positionX = 0, positionY = 0,
      quality_a0 = 1, quality_a1 = 1, quality_a2 = 1, quality_a3 = 1,
      kalman_x = 190, kalman_y = 300, kalman_p_x = 100, kalman_p_y = 100,
      kalman_q = 0.01, kalman_r = 1\<rparr>"

definition resetKalmanFilter :: "sketch \<Rightarrow> sketch" where
  "resetKalmanFilter s =
     s\<lparr>kalman_x := 190, kalman_y := 300, kalman_p_x := 100, kalman_p_y := 100\<rparr>"

text \<open>
  \<open>detectInconsistentMeasurements\<close>: the two nested loops visit the pairs \<open>(i, j)\<close> with
  \<open>i < 3\<close> and \<open>i < j < 4\<close> in order; \<open>penalisePair\<close> is the loop body, acting on the local
  array \<open>qualities\<close>.
\<close>

definition anchorPairs :: "(nat \<times> nat) list" where
  "anchorPairs = concat (map (\<lambda>i. map (\<lambda>j. (i, j)) [i + 1 ..< 4]) [0 ..< 3])"

definition penalisePair :: "layout \<Rightarrow> real list \<Rightarrow> nat \<times> nat \<Rightarrow> real list \<Rightarrow> real list" where
  "penalisePair L distances p qualities =
     (let i = fst p; j = snd p;
          anchor_dist = calculateDistance (anchor_x L ! i) (anchor_y L ! i)
                                          (anchor_x L ! j) (anchor_y L ! j)
      in if \<not> checkTriangleInequality (distances ! i) (distances ! j) anchor_dist
         then (let q1 = qualities[i := qualities ! i * 0.5]
               in q1[j := q1 ! j * 0.5])
         else qualities)"

definition detectInconsistentMeasurements :: "layout \<Rightarrow> sketch \<Rightarrow> sketch" where
  "detectInconsistentMeasurements L s =
     (let distances = [dist_to_a0 s, dist_to_a1 s, dist_to_a2 s, dist_to_a3 s];
          qualities = fold (penalisePair L distances) anchorPairs [1, 1, 1, 1]
      in s\<lparr>quality_a0 := qualities ! 0, quality_a1 := qualities ! 1,
           quality_a2 := qualities ! 2, quality_a3 := qualities ! 3\<rparr>)"

text \<open>
  The last block of \<open>calculatePosition\<close> (from "Apply Kalman filter" to the assignment of
  \<open>positionX\<close>, \<open>positionY\<close>), applied to the weighted position \<open>(rawX, rawY)\<close>.
\<close>

definition applyKalmanFilter :: "real \<Rightarrow> real \<Rightarrow> sketch \<Rightarrow> sketch" where
  "applyKalmanFilter rawX rawY s =
     (let p_x = kalman_p_x s + kalman_q s;
          p_y = kalman_p_y s + kalman_q s;
          k_x = p_x / (p_x + kalman_r s);
          k_y = p_y / (p_y + kalman_r s);
          est_x = kalman_x s + k_x * (rawX - kalman_x s);
          est_y = kalman_y s + k_y * (rawY - kalman_y s)
      in s\<lparr>kalman_x := est_x, kalman_y := est_y,
           kalman_p_x := (1 - k_x) * p_x, kalman_p_y := (1 - k_y) * p_y,
           positionX := est_x, positionY := est_y\<rparr>)"

text \<open>
  The middle block of \<open>calculatePosition\<close> (from "Work directly in cm" to the printing of
  the weighted position): the three triplet solutions and their quality-weighted average,
  computed in the state left by the consistency check. \<open>None\<close> is the early return at
  "no valid solutions". A solution \<open>x1\<close>, \<open>y1\<close>, ... keeps its initial value 0 when its
  triplet is not solved.
\<close>

definition weightedPosition :: "layout \<Rightarrow> sketch \<Rightarrow> (real \<times> real) option" where
  "weightedPosition L s =
     (let ax = anchor_x L; ay = anchor_y L;
          dist_to_a0_sq = dist_to_a0 s * dist_to_a0 s;
          dist_to_a1_sq = dist_to_a1 s * dist_to_a1 s;
          dist_to_a2_sq = dist_to_a2 s * dist_to_a2 s;
          dist_to_a3_sq = dist_to_a3 s * dist_to_a3 s;
          a0_sq = ax ! 0 * ax ! 0 + ay ! 0 * ay ! 0;
          a1_sq = ax ! 1 * ax ! 1 + ay ! 1 * ay ! 1;
          a2_sq = ax ! 2 * ax ! 2 + ay ! 2 * ay ! 2;
          a3_sq = ax ! 3 * ax ! 3 + ay ! 3 * ay ! 3;
          A_01 = 2 * (ax ! 1 - ax ! 0);
          B_01 = 2 * (ay ! 1 - ay ! 0);
          C_01 = dist_to_a0_sq - dist_to_a1_sq - a0_sq + a1_sq;
          A_12 = 2 * (ax ! 2 - ax ! 1);
          B_12 = 2 * (ay ! 2 - ay ! 1);
          C_12 = dist_to_a1_sq - dist_to_a2_sq - a1_sq + a2_sq;
          A_13 = 2 * (ax ! 3 - ax ! 1);
          B_13 = 2 * (ay ! 3 - ay ! 1);
          C_13 = dist_to_a1_sq - dist_to_a3_sq - a1_sq + a3_sq;
          A_02 = 2 * (ax ! 2 - ax ! 0);
          B_02 = 2 * (ay ! 2 - ay ! 0);
          C_02 = dist_to_a0_sq - dist_to_a2_sq - a0_sq + a2_sq;
          A_23 = 2 * (ax ! 3 - ax ! 2);
          B_23 = 2 * (ay ! 3 - ay ! 2);
          C_23 = dist_to_a2_sq - dist_to_a3_sq - a2_sq + a3_sq;
          weight1 = quality_a0 s * quality_a1 s * quality_a2 s;
          den1 = A_01 * B_12 - B_01 * A_12;
          valid1 = (\<bar>den1\<bar> > 0.000001);
          x1 = (if valid1 then (C_01 * B_12 - C_12 * B_01) / den1 else 0);
          y1 = (if valid1 then (A_01 * C_12 - C_01 * A_12) / den1 else 0);
          weight2 = quality_a0 s * quality_a1 s * quality_a3 s;
          den2 = A_01 * B_13 - B_01 * A_13;
          valid2 = (\<bar>den2\<bar> > 0.000001);
          x2 = (if valid2 then (C_01 * B_13 - C_13 * B_01) / den2 else 0);
          y2 = (if valid2 then (A_01 * C_13 - C_01 * A_13) / den2 else 0);
          weight3 = quality_a0 s * quality_a2 s * quality_a3 s;
          den3 = A_02 * B_23 - B_02 * A_23;
          valid3 = (\<bar>den3\<bar> > 0.000001);
          x3 = (if valid3 then (C_02 * B_23 - C_23 * B_02) / den3 else 0);
          y3 = (if valid3 then (A_02 * C_23 - C_02 * A_23) / den3 else 0)
      in if \<not> valid1 \<and> \<not> valid2 \<and> \<not> valid3 then None
         else
          (let rawX1 = (if valid1 then 0 + x1 * weight1 else 0);
               rawY1 = (if valid1 then 0 + y1 * weight1 else 0);
               totalWeight1 = (if valid1 then 0 + weight1 else 0);
               rawX2 = (if valid2 then rawX1 + x2 * weight2 else rawX1);
               rawY2 = (if valid2 then rawY1 + y2 * weight2 else rawY1);
               totalWeight2 = (if valid2 then totalWeight1 + weight2 else totalWeight1);
               rawX3 = (if valid3 then rawX2 + x3 * weight3 else rawX2);
               rawY3 = (if valid3 then rawY2 + y3 * weight3 else rawY2);
               totalWeight = (if valid3 then totalWeight2 + weight3 else totalWeight2);
               rawX = (if totalWeight > 0 then rawX3 / totalWeight else rawX3);
               rawY = (if totalWeight > 0 then rawY3 / totalWeight else rawY3)
           in Some (rawX, rawY)))"

text \<open>
  \<open>calculatePosition\<close> ends in one of three ways: the two early returns, \<open>NeedAllDistances\<close>
  and \<open>NoValidSolutions\<close> after what they print, and the normal end, \<open>Position rawX rawY\<close>,
  which carries the weighted position it prints before filtering.
\<close>

definition calculatePosition :: "layout \<Rightarrow> sketch \<Rightarrow> outcome \<times> sketch" where
  "calculatePosition L s0 =
     (if dist_to_a0 s0 \<le> 0 \<or> dist_to_a1 s0 \<le> 0 \<or> dist_to_a2 s0 \<le> 0 \<or> dist_to_a3 s0 \<le> 0
      then (NeedAllDistances, s0)
      else
       (let s = detectInconsistentMeasurements L s0
        in case weightedPosition L s of
             None \<Rightarrow> (NoValidSolutions, s)
           | Some (rawX, rawY) \<Rightarrow> (Position rawX rawY, applyKalmanFilter rawX rawY s)))"

text \<open>
  The filter state of the sketch is usable when the error estimates and the two noise
  constants are positive; then no gain is computed with a zero denominator. The
  initial values satisfy it and the filter block keeps it.
\<close>

definition filter_ok :: "sketch \<Rightarrow> bool" where
  "filter_ok s \<longleftrightarrow> 0 < kalman_p_x s \<and> 0 < kalman_p_y s \<and> 0 < kalman_q s \<and> 0 < kalman_r s"

text \<open>
  The scalar Kalman step in the words of the specification, for one axis: the pair is
  \<open>(estimate, errorCov)\<close>.
\<close>

definition kalmanAxis :: "real \<Rightarrow> real \<Rightarrow> real \<times> real \<Rightarrow> real \<Rightarrow> real \<times> real" where
  "kalmanAxis processNoise measurementNoise st raw =
     (let estimate = fst st;
          errorCov = snd st + processNoise;
          k = errorCov / (errorCov + measurementNoise)
      in (estimate + k * (raw - estimate), (1 - k) * errorCov))"

text \<open>
  The first statements of \<open>injectNoisePattern\<close> and of the baseline test in
  \<open>runRobustnessTests\<close>: the four distances are set to the exact distances from the tag
  position \<open>(tagX, tagY)\<close> to the anchors.
\<close>

definition idealDistances :: "layout \<Rightarrow> real \<Rightarrow> real \<Rightarrow> 'a ranging_scheme \<Rightarrow> 'a ranging_scheme" where
  "idealDistances L tagX tagY s =
     s\<lparr>dist_to_a0 := calculateDistance tagX tagY (anchor_x L ! 0) (anchor_y L ! 0),
       dist_to_a1 := calculateDistance tagX tagY (anchor_x L ! 1) (anchor_y L ! 1),
       dist_to_a2 := calculateDistance tagX tagY (anchor_x L ! 2) (anchor_y L ! 2),
       dist_to_a3 := calculateDistance tagX tagY (anchor_x L ! 3) (anchor_y L ! 3)\<rparr>"

subsection \<open>The notions of the specification, for the four-anchor sketches\<close>

text \<open>The distances and the qualities as arrays indexed by anchor.\<close>

definition distancesOf :: "'a ranging_scheme \<Rightarrow> real list" where
  "distancesOf s = [dist_to_a0 s, dist_to_a1 s, dist_to_a2 s, dist_to_a3 s]"

definition qualitiesOf :: "sketch \<Rightarrow> real list" where
  "qualitiesOf s = [quality_a0 s, quality_a1 s, quality_a2 s, quality_a3 s]"

text \<open>
  A pair of anchors is violated when the two tag distances and the distance between the
  two anchors fail one of the three strict triangle inequalities; \<open>violationsOf L s a\<close>
  counts the violated pairs that anchor \<open>a\<close> belongs to.
\<close>

definition violation :: "layout \<Rightarrow> 'a ranging_scheme \<Rightarrow> nat \<times> nat \<Rightarrow> bool" where
  "violation L s p \<longleftrightarrow>
     \<not> checkTriangleInequality (distancesOf s ! fst p) (distancesOf s ! snd p)
          (calculateDistance (anchor_x L ! fst p) (anchor_y L ! fst p)
                             (anchor_x L ! snd p) (anchor_y L ! snd p))"

definition violationsOf :: "layout \<Rightarrow> 'a ranging_scheme \<Rightarrow> nat \<Rightarrow> nat" where
  "violationsOf L s a =
     length (filter (\<lambda>p. (fst p = a \<or> snd p = a) \<and> violation L s p) anchorPairs)"

text \<open>The factor by which a pair scales the quality of both of its anchors.\<close>

definition penalty :: "bool \<Rightarrow> real" where
  "penalty v = (if v then 0.5 else 1)"

text \<open>
  The linearised circle equations: for an anchor pair \<open>(p, q)\<close> the equation
  \<open>A x + B y = C\<close>, and for a triplet \<open>(i, j, k)\<close> the system of the pairs \<open>(i, j)\<close> and
  \<open>(j, k)\<close>, its determinant and its solution by Cramer's rule. A triplet is degenerate
  when the determinant is at most \<open>1e-6\<close> in absolute value.
\<close>

definition pairA :: "real list \<Rightarrow> nat \<Rightarrow> nat \<Rightarrow> real" where
  "pairA ax p q = 2 * (ax ! q - ax ! p)"

definition pairC :: "real list \<Rightarrow> real list \<Rightarrow> real list \<Rightarrow> nat \<Rightarrow> nat \<Rightarrow> real" where
  "pairC ax ay d p q = (d ! p)\<^sup>2 - (d ! q)\<^sup>2 - (ax ! p)\<^sup>2 + (ax ! q)\<^sup>2 - (ay ! p)\<^sup>2 + (ay ! q)\<^sup>2"

fun tripletDen :: "real list \<Rightarrow> real list \<Rightarrow> nat \<times> nat \<times> nat \<Rightarrow> real" where
  "tripletDen ax ay (i, j, k) = pairA ax i j * pairA ay j k - pairA ay i j * pairA ax j k"

fun tripletSolution :: "real list \<Rightarrow> real list \<Rightarrow> real list \<Rightarrow> nat \<times> nat \<times> nat \<Rightarrow> real \<times> real" where
  "tripletSolution ax ay d (i, j, k) =
     ((pairC ax ay d i j * pairA ay j k - pairC ax ay d j k * pairA ay i j) / tripletDen ax ay (i, j, k),
      (pairA ax i j * pairC ax ay d j k - pairC ax ay d i j * pairA ax j k) / tripletDen ax ay (i, j, k))"

definition degenerate :: "layout \<Rightarrow> nat \<times> nat \<times> nat \<Rightarrow> bool" where
  "degenerate L t \<longleftrightarrow> \<bar>tripletDen (anchor_x L) (anchor_y L) t\<bar> \<le> 0.000001"

text \<open>
  The triplets the four-anchor sketches solve, the weight of a triplet (the product of the
  qualities of its anchors), the candidates of the non-degenerate triplets with their
  weights, and the weighted mean of a list of weighted candidates.
\<close>

definition sketchTriplets :: "(nat \<times> nat \<times> nat) list" where
  "sketchTriplets = [(0, 1, 2), (0, 1, 3), (0, 2, 3)]"

fun tripletWeight :: "sketch \<Rightarrow> nat \<times> nat \<times> nat \<Rightarrow> real" where
  "tripletWeight s (i, j, k) = qualitiesOf s ! i * qualitiesOf s ! j * qualitiesOf s ! k"

definition candidatesOf ::
  "layout \<Rightarrow> sketch \<Rightarrow> (nat \<times> nat \<times> nat) list \<Rightarrow> ((real \<times> real) \<times> real) list" where
  "candidatesOf L s ts =
     map (\<lambda>t. (tripletSolution (anchor_x L) (anchor_y L) (distancesOf s) t, tripletWeight s t))
         (filter (\<lambda>t. \<not> degenerate L t) ts)"

definition weightedMean :: "((real \<times> real) \<times> real) list \<Rightarrow> real \<times> real" where
  "weightedMean cs =
     (sum_list (map (\<lambda>c. fst (fst c) * snd c) cs) / sum_list (map snd cs),
      sum_list (map (\<lambda>c. snd (fst c) * snd c) cs) / sum_list (map snd cs))"

text \<open>Exactly one pair of anchors is violated, the pair \<open>p\<close>.\<close>

definition onlyViolation :: "layout \<Rightarrow> 'a ranging_scheme \<Rightarrow> nat \<times> nat \<Rightarrow> bool" where
  "onlyViolation L s p \<longleftrightarrow> (\<forall>p' \<in> set anchorPairs. violation L s p' \<longleftrightarrow> p' = p)"

subsection \<open>The position calculation test (synthetic distances, no filtering)\<close>

text \<open>
  The sketch "UWB Position Calculation Test" declares the globals of \<open>ranging\<close> only.
  \<open>averagePosition\<close> is the part of its \<open>calculatePosition\<close> from "Solve using anchors
  0,1,2" to the division by \<open>validSolutions\<close>; \<open>None\<close> is the return at "no valid
  solutions".
\<close>

definition averagePosition :: "layout \<Rightarrow> 'a ranging_scheme \<Rightarrow> (real \<times> real) option" where
  "averagePosition L s =
     (let ax = anchor_x L; ay = anchor_y L;
          d0 = dist_to_a0 s; d1 = dist_to_a1 s; d2 = dist_to_a2 s; d3 = dist_to_a3 s;
          A1 = 2 * (ax ! 1 - ax ! 0);
          B1 = 2 * (ay ! 1 - ay ! 0);
          C1 = d0 * d0 - d1 * d1 - ax ! 0 * ax ! 0 + ax ! 1 * ax ! 1
                 - ay ! 0 * ay ! 0 + ay ! 1 * ay ! 1;
          D1 = 2 * (ax ! 2 - ax ! 1);
          E1 = 2 * (ay ! 2 - ay ! 1);
          F1 = d1 * d1 - d2 * d2 - ax ! 1 * ax ! 1 + ax ! 2 * ax ! 2
                 - ay ! 1 * ay ! 1 + ay ! 2 * ay ! 2;
          den1 = A1 * E1 - B1 * D1;
          x1 = (if \<bar>den1\<bar> > 0.000001 then (C1 * E1 - F1 * B1) / den1 else 0);
          y1 = (if \<bar>den1\<bar> > 0.000001 then (A1 * F1 - C1 * D1) / den1 else 0);
          A2 = 2 * (ax ! 1 - ax ! 0);
          B2 = 2 * (ay ! 1 - ay ! 0);
          C2 = d0 * d0 - d1 * d1 - ax ! 0 * ax ! 0 + ax ! 1 * ax ! 1
                 - ay ! 0 * ay ! 0 + ay ! 1 * ay ! 1;
          D2 = 2 * (ax ! 3 - ax ! 1);
          E2 = 2 * (ay ! 3 - ay ! 1);
          F2 = d1 * d1 - d3 * d3 - ax ! 1 * ax ! 1 + ax ! 3 * ax ! 3
                 - ay ! 1 * ay ! 1 + ay ! 3 * ay ! 3;
          den2 = A2 * E2 - B2 * D2;
          x2 = (if \<bar>den2\<bar> > 0.000001 then (C2 * E2 - F2 * B2) / den2 else 0);
          y2 = (if \<bar>den2\<bar> > 0.000001 then (A2 * F2 - C2 * D2) / den2 else 0);
          A3 = 2 * (ax ! 2 - ax ! 0);
          B3 = 2 * (ay ! 2 - ay ! 0);
          C3 = d0 * d0 - d2 * d2 - ax ! 0 * ax ! 0 + ax ! 2 * ax ! 2
                 - ay ! 0 * ay ! 0 + ay ! 2 * ay ! 2;
          D3 = 2 * (ax ! 3 - ax ! 2);
          E3 = 2 * (ay ! 3 - ay ! 2);
          F3 = d2 * d2 - d3 * d3 - ax ! 2 * ax ! 2 + ax ! 3 * ax ! 3
                 - ay ! 2 * ay ! 2 + ay ! 3 * ay ! 3;
          den3 = A3 * E3 - B3 * D3;
          x3 = (if \<bar>den3\<bar> > 0.000001 then (C3 * E3 - F3 * B3) / den3 else 0);
          y3 = (if \<bar>den3\<bar> > 0.000001 then (A3 * F3 - C3 * D3) / den3 else 0);
          validSolutions = (if \<bar>den1\<bar> > 0.000001 then 1 else 0)
                         + (if \<bar>den2\<bar> > 0.000001 then 1 else 0)
                         + (if \<bar>den3\<bar> > 0.000001 then 1 else (0::nat))
      in if validSolutions = 0 then None
         else
          (let xa = (if \<bar>den1\<bar> > 0.000001 then 0 + x1 else 0);
               ya = (if \<bar>den1\<bar> > 0.000001 then 0 + y1 else 0);
               xb = (if \<bar>den2\<bar> > 0.000001 then xa + x2 else xa);
               yb = (if \<bar>den2\<bar> > 0.000001 then ya + y2 else ya);
               xc = (if \<bar>den3\<bar> > 0.000001 then xb + x3 else xb);
               yc = (if \<bar>den3\<bar> > 0.000001 then yb + y3 else yb)
           in Some (xc / real validSolutions, yc / real validSolutions)))"

definition calculatePosition_test :: "layout \<Rightarrow> 'a ranging_scheme \<Rightarrow> outcome \<times> 'a ranging_scheme" where
  "calculatePosition_test L s =
     (if dist_to_a0 s \<le> 0 \<or> dist_to_a1 s \<le> 0 \<or> dist_to_a2 s \<le> 0 \<or> dist_to_a3 s \<le> 0
      then (NeedAllDistances, s)
      else case averagePosition L s of
             None \<Rightarrow> (NoValidSolutions, s)
           | Some (x, y) \<Rightarrow> (Position x y, s\<lparr>positionX := x, positionY := y\<rparr>))"

subsection \<open>The tag sketch with display (distance display with position calculation)\<close>

text \<open>
  This sketch solves the single triplet of anchors 0, 1, 2, in metres, rejects a position
  outside the boundary, and averages the accepted positions over a history of
  \<open>POSITION_HISTORY_LENGTH\<close> entries. \<open>triangulate\<close> is the part of its
  \<open>calculatePosition\<close> from the conversion to metres to the conversion back to
  centimetres; \<open>None\<close> is the return at "anchors are colinear".
\<close>

record display_sketch = ranging +
  positionX_history :: "real list"
  positionY_history :: "real list"
  position_history_index :: nat
  position_history_filled :: bool

definition POSITION_HISTORY_LENGTH :: nat where
  "POSITION_HISTORY_LENGTH = 1"

definition triangulate :: "layout \<Rightarrow> 'a ranging_scheme \<Rightarrow> (real \<times> real) option" where
  "triangulate L s =
     (let r1 = dist_to_a0 s / 100.0;
          r2 = dist_to_a1 s / 100.0;
          r3 = dist_to_a2 s / 100.0;
          x1 = anchor_x L ! 0 / 100.0;
          y1 = anchor_y L ! 0 / 100.0;
          x2 = anchor_x L ! 1 / 100.0;
          y2 = anchor_y L ! 1 / 100.0;
          x3 = anchor_x L ! 2 / 100.0;
          y3 = anchor_y L ! 2 / 100.0;
          A = 2 * (x2 - x1);
          B = 2 * (y2 - y1);
          C = r1 * r1 - r2 * r2 - x1 * x1 + x2 * x2 - y1 * y1 + y2 * y2;
          D = 2 * (x3 - x2);
          E = 2 * (y3 - y2);
          F = r2 * r2 - r3 * r3 - x2 * x2 + x3 * x3 - y2 * y2 + y3 * y3;
          denominator = A * E - B * D
      in if \<bar>denominator\<bar> < 0.000001 then None
         else
          (let x = (C * E - F * B) / denominator;
               y = (A * F - C * D) / denominator
           in Some (x * 100.0, y * 100.0)))"

definition calculatePosition_display :: "layout \<Rightarrow> display_sketch \<Rightarrow> outcome \<times> display_sketch" where
  "calculatePosition_display L s =
     (if dist_to_a0 s \<le> 0 \<or> dist_to_a1 s \<le> 0 \<or> dist_to_a2 s \<le> 0 \<or> dist_to_a3 s \<le> 0
      then (NeedAllDistances, s)
      else case triangulate L s of
             None \<Rightarrow> (NoValidSolutions, s)
           | Some (rawX, rawY) \<Rightarrow>
               if rawX < 0 \<or> rawY < 0 \<or> rawX > anchor_x L ! 2 \<or> rawY > anchor_y L ! 1
               then (OutsideBoundaries, s)
               else
                (let hx = (positionX_history s)[position_history_index s := rawX];
                     hy = (positionY_history s)[position_history_index s := rawY];
                     idx = (position_history_index s + 1) mod POSITION_HISTORY_LENGTH;
                     filled = (if idx = 0 then True else position_history_filled s);
                     count = (if filled then POSITION_HISTORY_LENGTH else idx);
                     sumX = fold (\<lambda>i a. a + hx ! i) [0 ..< count] 0;
                     sumY = fold (\<lambda>i a. a + hy ! i) [0 ..< count] 0;
                     avgX = (if count > 0 then sumX / real count else sumX);
                     avgY = (if count > 0 then sumY / real count else sumY)
                 in (Position rawX rawY,
                     s\<lparr>positionX := avgX, positionY := avgY,
                       positionX_history := hx, positionY_history := hy,
                       position_history_index := idx, position_history_filled := filled\<rparr>)))"

subsection \<open>The browser visualisation: \<open>UWB.cal\<close>\<close>

text \<open>
  An object of the JavaScript class \<open>UWB\<close>, with the fields the position calculation
  reads and writes. The fields \<open>x\<close>, \<open>y\<close> and \<open>list\<close> of the source are named \<open>loc_x\<close>,
  \<open>loc_y\<close> and \<open>ranges\<close> here. The global array \<open>anc\<close> of the anchors is an argument.
  \<open>cal_average\<close> is the part of \<open>cal\<close> from "Anchor positions" to the division by
  \<open>validSolutions\<close>; \<open>None\<close> is the return at "No valid solutions".
\<close>

record uwb =
  loc_x :: real
  loc_y :: real
  status :: bool
  ranges :: "real list"
  needsUpdate :: bool

definition set_location :: "uwb \<Rightarrow> real \<Rightarrow> real \<Rightarrow> uwb" where
  "set_location this x y = this\<lparr>loc_x := x, loc_y := y, status := True\<rparr>"

definition cal_average :: "uwb list \<Rightarrow> real list \<Rightarrow> (real \<times> real) option" where
  "cal_average anc d =
     (let ax = [loc_x (anc ! 0), loc_x (anc ! 1), loc_x (anc ! 2), loc_x (anc ! 3)];
          ay = [loc_y (anc ! 0), loc_y (anc ! 1), loc_y (anc ! 2), loc_y (anc ! 3)];
          dist_to_a0_sq = d ! 0 * d ! 0;
          dist_to_a1_sq = d ! 1 * d ! 1;
          dist_to_a2_sq = d ! 2 * d ! 2;
          dist_to_a3_sq = d ! 3 * d ! 3;
          a0_sq = ax ! 0 * ax ! 0 + ay ! 0 * ay ! 0;
          a1_sq = ax ! 1 * ax ! 1 + ay ! 1 * ay ! 1;
          a2_sq = ax ! 2 * ax ! 2 + ay ! 2 * ay ! 2;
          a3_sq = ax ! 3 * ax ! 3 + ay ! 3 * ay ! 3;
          A_01 = 2 * (ax ! 1 - ax ! 0);
          B_01 = 2 * (ay ! 1 - ay ! 0);
          C_01 = dist_to_a0_sq - dist_to_a1_sq - a0_sq + a1_sq;
          A_12 = 2 * (ax ! 2 - ax ! 1);
          B_12 = 2 * (ay ! 2 - ay ! 1);
          C_12 = dist_to_a1_sq - dist_to_a2_sq - a1_sq + a2_sq;
          A_13 = 2 * (ax ! 3 - ax ! 1);
          B_13 = 2 * (ay ! 3 - ay ! 1);
          C_13 = dist_to_a1_sq - dist_to_a3_sq - a1_sq + a3_sq;
          A_02 = 2 * (ax ! 2 - ax ! 0);
          B_02 = 2 * (ay ! 2 - ay ! 0);
          C_02 = dist_to_a0_sq - dist_to_a2_sq - a0_sq + a2_sq;
          A_23 = 2 * (ax ! 3 - ax ! 2);
          B_23 = 2 * (ay ! 3 - ay ! 2);
          C_23 = dist_to_a2_sq - dist_to_a3_sq - a2_sq + a3_sq;
          den1 = A_01 * B_12 - B_01 * A_12;
          x1 = (if \<bar>den1\<bar> > 0.000001 then (C_01 * B_12 - C_12 * B_01) / den1 else 0);
          y1 = (if \<bar>den1\<bar> > 0.000001 then (A_01 * C_12 - C_01 * A_12) / den1 else 0);
          den2 = A_01 * B_13 - B_01 * A_13;
          x2 = (if \<bar>den2\<bar> > 0.000001 then (C_01 * B_13 - C_13 * B_01) / den2 else 0);
          y2 = (if \<bar>den2\<bar> > 0.000001 then (A_01 * C_13 - C_01 * A_13) / den2 else 0);
          den3 = A_02 * B_23 - B_02 * A_23;
          x3 = (if \<bar>den3\<bar> > 0.000001 then (C_02 * B_23 - C_23 * B_02) / den3 else 0);
          y3 = (if \<bar>den3\<bar> > 0.000001 then (A_02 * C_23 - C_02 * A_23) / den3 else 0);
          validSolutions = (if \<bar>den1\<bar> > 0.000001 then 1 else 0)
                         + (if \<bar>den2\<bar> > 0.000001 then 1 else 0)
                         + (if \<bar>den3\<bar> > 0.000001 then 1 else (0::nat))
      in if validSolutions = 0 then None
         else
          (let xa = (if \<bar>den1\<bar> > 0.000001 then 0 + x1 else 0);
               ya = (if \<bar>den1\<bar> > 0.000001 then 0 + y1 else 0);
               xb = (if \<bar>den2\<bar> > 0.000001 then xa + x2 else xa);
               yb = (if \<bar>den2\<bar> > 0.000001 then ya + y2 else ya);
               xc = (if \<bar>den3\<bar> > 0.000001 then xb + x3 else xb);
               yc = (if \<bar>den3\<bar> > 0.000001 then yb + y3 else yb)
           in Some (xc / real validSolutions, yc / real validSolutions)))"

definition cal :: "uwb list \<Rightarrow> uwb \<Rightarrow> outcome \<times> uwb" where
  "cal anc this0 =
     (if \<not> needsUpdate this0 then (NoUpdateNeeded, this0)
      else
       (let this = this0\<lparr>needsUpdate := False\<rparr>;
            d = ranges this
        in if length d < 4 \<or> d ! 0 \<le> 0 \<or> d ! 1 \<le> 0 \<or> d ! 2 \<le> 0 \<or> d ! 3 \<le> 0
           then (NeedAllDistances, this)
           else case cal_average anc d of
                  None \<Rightarrow> (NoValidSolutions, this)
                | Some (x, y) \<Rightarrow>
                    if x < 0 \<or> y < 0 \<or> x > loc_x (anc ! 2) \<or> y > loc_y (anc ! 1)
                    then (OutsideBoundaries, this)
                    else (Position x y,
                          set_location this (real_of_int \<lfloor>x\<rfloor>) (real_of_int \<lfloor>y\<rfloor>))))"

text \<open>
  The constructor of \<open>UWB\<close>, and the anchors as \<open>setup\<close> creates and places them
  (\<open>A0X\<close>, \<open>A0Y\<close>, ... of the visualisation).
\<close>

definition UWB :: uwb where
  "UWB = \<lparr>loc_x = 0, loc_y = 0, status = False, ranges = replicate 8 0, needsUpdate = False\<rparr>"

definition setup_anc :: "uwb list" where
  "setup_anc = [set_location UWB 0 0, set_location UWB 0 1270,
                set_location UWB 540 1270, set_location UWB 540 0]"

subsection \<open>The class \<open>MaUWB_TAG\<close>\<close>

text \<open>
  The fields of a \<open>MaUWB_TAG\<close> object that the position calculation reads and writes.
  The arrays \<open>anchorX\<close>, \<open>anchorY\<close> and \<open>distances\<close> have \<open>MAX_ANCHORS\<close> entries, the two
  history arrays \<open>MAX_HISTORY\<close> entries. The repository holds two implementations of the
  class over these fields: the header \<open>MaUWB_TAG.h\<close> with inline methods, and the
  implementation file of the newer sketch; the methods of the latter carry the suffix
  \<open>_new\<close> below.
\<close>

record tag =
  numAnchors :: nat
  anchorX :: "real list"
  anchorY :: "real list"
  distances :: "real list"
  currentX :: real
  currentY :: real
  positionHistoryLength :: nat
  positionXHistory :: "real list"
  positionYHistory :: "real list"
  positionHistoryIndex :: nat
  positionHistoryFilled :: bool
  newData :: bool

definition MAX_ANCHORS :: nat where
  "MAX_ANCHORS = 10"

definition MAX_HISTORY :: nat where
  "MAX_HISTORY = 10"

definition setAnchorCount :: "nat \<Rightarrow> tag \<Rightarrow> tag" where
  "setAnchorCount count t = (if count \<le> MAX_ANCHORS then t\<lparr>numAnchors := count\<rparr> else t)"

definition setAnchorPosition :: "nat \<Rightarrow> real \<Rightarrow> real \<Rightarrow> tag \<Rightarrow> tag" where
  "setAnchorPosition anchorIndex x y t =
     (if anchorIndex < MAX_ANCHORS
      then t\<lparr>anchorX := (anchorX t)[anchorIndex := x], anchorY := (anchorY t)[anchorIndex := y]\<rparr>
      else t)"

definition setDefaultAnchors :: "tag \<Rightarrow> tag" where
  "setDefaultAnchors t =
     setAnchorPosition 3 380 0
       (setAnchorPosition 2 380 600
         (setAnchorPosition 1 0 600
           (setAnchorPosition 0 0 0 t)))"

text \<open>
  The loops \<open>for i < numAnchors - 2\<close>, \<open>for j = i + 1 .. < numAnchors - 1\<close>,
  \<open>for k = j + 1 .. < numAnchors\<close> of both implementations visit these triplets, in this
  order.
\<close>

definition triplets :: "nat \<Rightarrow> (nat \<times> nat \<times> nat) list" where
  "triplets n =
     concat (map (\<lambda>i. concat (map (\<lambda>j. map (\<lambda>k. (i, j, k)) [j + 1 ..< n]) [i + 1 ..< n - 1]))
                 [0 ..< n - 2])"

subsubsection \<open>The header implementation (MaUWB\_TAG.h)\<close>

text \<open>The constructor: four anchors in the default layout, no distances, position (0, 0).\<close>

definition MaUWB_TAG :: tag where
  "MaUWB_TAG =
     setDefaultAnchors
       \<lparr>numAnchors = 4, anchorX = replicate MAX_ANCHORS 0, anchorY = replicate MAX_ANCHORS 0,
        distances = replicate MAX_ANCHORS 0, currentX = 0, currentY = 0,
        positionHistoryLength = 5,
        positionXHistory = replicate MAX_HISTORY 0, positionYHistory = replicate MAX_HISTORY 0,
        positionHistoryIndex = 0, positionHistoryFilled = False, newData = False\<rparr>"

text \<open>
  \<open>calculatePositionFromTriplet\<close> returns \<open>false\<close> (here \<open>None\<close>) without writing \<open>x\<close>, \<open>y\<close>
  when the denominator is small, else \<open>true\<close> with the solution in \<open>x\<close>, \<open>y\<close>.
\<close>

definition calculatePositionFromTriplet :: "tag \<Rightarrow> nat \<Rightarrow> nat \<Rightarrow> nat \<Rightarrow> (real \<times> real) option" where
  "calculatePositionFromTriplet t a1 a2 a3 =
     (let x1 = anchorX t ! a1; y1 = anchorY t ! a1; r1 = distances t ! a1;
          x2 = anchorX t ! a2; y2 = anchorY t ! a2; r2 = distances t ! a2;
          x3 = anchorX t ! a3; y3 = anchorY t ! a3; r3 = distances t ! a3;
          A = 2 * (x2 - x1);
          B = 2 * (y2 - y1);
          C = r1\<^sup>2 - r2\<^sup>2 - x1\<^sup>2 + x2\<^sup>2 - y1\<^sup>2 + y2\<^sup>2;
          D = 2 * (x3 - x2);
          E = 2 * (y3 - y2);
          F = r2\<^sup>2 - r3\<^sup>2 - x2\<^sup>2 + x3\<^sup>2 - y2\<^sup>2 + y3\<^sup>2;
          denominator = A * E - B * D
      in if \<bar>denominator\<bar> < 0.0001 then None
         else Some ((C * E - F * B) / denominator, (A * F - D * C) / denominator))"

text \<open>
  \<open>updatePositionHistory\<close> stores the position and advances the index modulo
  \<open>positionHistoryLength\<close>. The setter of the header accepts the length 0, with which the
  remainder is a division by zero: the result is \<open>None\<close> then.
\<close>

definition updatePositionHistory :: "real \<Rightarrow> real \<Rightarrow> tag \<Rightarrow> tag option" where
  "updatePositionHistory x y t =
     (if positionHistoryLength t = 0 then None
      else
       (let idx = (positionHistoryIndex t + 1) mod positionHistoryLength t
        in Some (t\<lparr>positionXHistory := (positionXHistory t)[positionHistoryIndex t := x],
                   positionYHistory := (positionYHistory t)[positionHistoryIndex t := y],
                   positionHistoryIndex := idx,
                   positionHistoryFilled := (if idx = 0 then True else positionHistoryFilled t)\<rparr>)))"

text \<open>
  \<open>calculatePosition\<close> of the header takes the first triplet of usable anchors, in loop
  order, whose solution exists and lies in the window \<open>[-100, 500] \<times> [-100, 700]\<close>; the
  flag \<open>positionFound\<close> ends all three loops. \<open>firstPosition\<close> is the loops over the triplets
  that remain.
\<close>

fun firstPosition :: "tag \<Rightarrow> (nat \<times> nat \<times> nat) list \<Rightarrow> outcome \<times> tag" where
  "firstPosition t [] = (NoValidSolutions, t)"
| "firstPosition t ((i, j, k) # ts) =
     (if distances t ! i > 0 \<and> distances t ! j > 0 \<and> distances t ! k > 0
      then (case calculatePositionFromTriplet t i j k of
              None \<Rightarrow> firstPosition t ts
            | Some (newX, newY) \<Rightarrow>
                if newX \<ge> -100 \<and> newX \<le> 500 \<and> newY \<ge> -100 \<and> newY \<le> 700
                then (case updatePositionHistory newX newY (t\<lparr>currentX := newX, currentY := newY\<rparr>) of
                        None \<Rightarrow> (DivisionByZero, t\<lparr>currentX := newX, currentY := newY\<rparr>)
                      | Some t' \<Rightarrow> (Position newX newY, t'))
                else firstPosition t ts)
      else firstPosition t ts)"

definition calculatePosition_tag :: "tag \<Rightarrow> outcome \<times> tag" where
  "calculatePosition_tag t = firstPosition t (triplets (numAnchors t))"

definition hasValidPosition :: "tag \<Rightarrow> bool" where
  "hasValidPosition t \<longleftrightarrow> currentX t \<noteq> 0 \<or> currentY t \<noteq> 0"

subsubsection \<open>The implementation of the newer sketch (MaUWB-TAG\_new.ino)\<close>

text \<open>
  The constructor. It fills \<open>distances\<close> and the histories and sets the four default
  anchors; the object is a global, so the other anchor entries are zero.
\<close>

definition MaUWB_TAG_new :: tag where
  "MaUWB_TAG_new =
     setDefaultAnchors
       \<lparr>numAnchors = 4, anchorX = replicate MAX_ANCHORS 0, anchorY = replicate MAX_ANCHORS 0,
        distances = replicate MAX_ANCHORS 0, currentX = 0, currentY = 0,
        positionHistoryLength = 1,
        positionXHistory = replicate MAX_HISTORY 0, positionYHistory = replicate MAX_HISTORY 0,
        positionHistoryIndex = 0, positionHistoryFilled = False, newData = False\<rparr>"

definition calculatePositionFromTriplet_new :: "tag \<Rightarrow> nat \<Rightarrow> nat \<Rightarrow> nat \<Rightarrow> (real \<times> real) option" where
  "calculatePositionFromTriplet_new t a1 a2 a3 =
     (let ax = anchorX t; ay = anchorY t; d = distances t;
          A1 = 2 * (ax ! a2 - ax ! a1);
          B1 = 2 * (ay ! a2 - ay ! a1);
          C1 = d ! a1 * d ! a1 - d ! a2 * d ! a2
                 - ax ! a1 * ax ! a1 + ax ! a2 * ax ! a2
                 - ay ! a1 * ay ! a1 + ay ! a2 * ay ! a2;
          A2 = 2 * (ax ! a3 - ax ! a2);
          B2 = 2 * (ay ! a3 - ay ! a2);
          C2 = d ! a2 * d ! a2 - d ! a3 * d ! a3
                 - ax ! a2 * ax ! a2 + ax ! a3 * ax ! a3
                 - ay ! a2 * ay ! a2 + ay ! a3 * ay ! a3;
          denominator = A1 * B2 - A2 * B1
      in if \<bar>denominator\<bar> < 0.000001 then None
         else Some ((C1 * B2 - C2 * B1) / denominator, (A1 * C2 - A2 * C1) / denominator))"

text \<open>
  \<open>updatePositionHistory\<close> of the newer sketch also publishes the average of the stored
  positions as the current position.
\<close>

definition updatePositionHistory_new :: "real \<Rightarrow> real \<Rightarrow> tag \<Rightarrow> tag option" where
  "updatePositionHistory_new x y t =
     (if positionHistoryLength t = 0 then None
      else
       (let hx = (positionXHistory t)[positionHistoryIndex t := x];
            hy = (positionYHistory t)[positionHistoryIndex t := y];
            idx = (positionHistoryIndex t + 1) mod positionHistoryLength t;
            filled = (if idx = 0 then True else positionHistoryFilled t);
            count = (if filled then positionHistoryLength t else idx);
            avgX = fold (\<lambda>i a. a + hx ! i) [0 ..< count] 0;
            avgY = fold (\<lambda>i a. a + hy ! i) [0 ..< count] 0;
            t1 = t\<lparr>positionXHistory := hx, positionYHistory := hy,
                   positionHistoryIndex := idx, positionHistoryFilled := filled\<rparr>
        in Some (if count > 0
                 then t1\<lparr>currentX := avgX / real count, currentY := avgY / real count\<rparr>
                 else t1)))"

text \<open>
  The body of the innermost loop of \<open>calculatePosition\<close>, on the accumulators
  \<open>(sumX, sumY, validSolutions)\<close>.
\<close>

definition addTriplet :: "tag \<Rightarrow> nat \<times> nat \<times> nat \<Rightarrow> real \<times> real \<times> nat \<Rightarrow> real \<times> real \<times> nat" where
  "addTriplet t ijk acc =
     (case ijk of (i, j, k) \<Rightarrow>
        case acc of (sumX, sumY, validSolutions) \<Rightarrow>
          if distances t ! i > 0 \<and> distances t ! j > 0 \<and> distances t ! k > 0
          then (case calculatePositionFromTriplet_new t i j k of
                  None \<Rightarrow> acc
                | Some (x, y) \<Rightarrow> (sumX + x, sumY + y, validSolutions + 1))
          else acc)"

definition calculatePosition_new :: "tag \<Rightarrow> outcome \<times> tag" where
  "calculatePosition_new t =
     (if numAnchors t < 3 then (NeedThreeAnchors, t)
      else
       (let validDistances =
              fold (\<lambda>i n. if distances t ! i > 0 then n + 1 else n) [0 ..< numAnchors t] (0::nat)
        in if validDistances < 3 then (NeedThreeDistances, t)
           else
            (case fold (addTriplet t) (triplets (numAnchors t)) (0, 0, 0) of
               (sumX, sumY, validSolutions) \<Rightarrow>
                 if validSolutions > 0
                 then (let rawX = sumX / real validSolutions;
                           rawY = sumY / real validSolutions
                       in if rawX \<ge> 0 \<and> rawY \<ge> 0 \<and> rawX \<le> anchorX t ! 2 \<and> rawY \<le> anchorY t ! 1
                          then (case updatePositionHistory_new rawX rawY t of
                                  None \<Rightarrow> (DivisionByZero, t)
                                | Some t' \<Rightarrow> (Position rawX rawY, t'))
                          else (OutsideBoundaries, t))
                 else (NoValidSolutions, t))))"

definition hasValidPosition_new :: "tag \<Rightarrow> bool" where
  "hasValidPosition_new t \<longleftrightarrow> currentX t > 0 \<or> currentY t > 0"

subsection \<open>Notions in which the properties are stated\<close>

text \<open>
  An outcome recovers the point \<open>(tx, ty)\<close> when it is a position within 0.01 cm of it on
  both axes.
\<close>

definition recovers :: "outcome \<Rightarrow> real \<Rightarrow> real \<Rightarrow> bool" where
  "recovers r tx ty = (case r of Position x y \<Rightarrow> \<bar>x - tx\<bar> < 0.01 \<and> \<bar>y - ty\<bar> < 0.01 | _ \<Rightarrow> False)"

text \<open>
  The notions of the specification for a \<open>MaUWB_TAG\<close> object: the usable anchors, the
  triplets of usable anchors, the degenerate ones among them (by the test of the newer
  sketch), the solutions of the others, and the boundary test on a position.
\<close>

definition usableAnchors :: "tag \<Rightarrow> nat list" where
  "usableAnchors t = filter (\<lambda>i. distances t ! i > 0) [0 ..< numAnchors t]"

fun usableTriplet :: "tag \<Rightarrow> nat \<times> nat \<times> nat \<Rightarrow> bool" where
  "usableTriplet t (i, j, k) \<longleftrightarrow>
     distances t ! i > 0 \<and> distances t ! j > 0 \<and> distances t ! k > 0"

definition usableTriplets :: "tag \<Rightarrow> (nat \<times> nat \<times> nat) list" where
  "usableTriplets t = filter (usableTriplet t) (triplets (numAnchors t))"

definition degenerate_new :: "tag \<Rightarrow> nat \<times> nat \<times> nat \<Rightarrow> bool" where
  "degenerate_new t tr \<longleftrightarrow> \<bar>tripletDen (anchorX t) (anchorY t) tr\<bar> < 0.000001"

definition solutions_new :: "tag \<Rightarrow> (real \<times> real) list" where
  "solutions_new t =
     map (tripletSolution (anchorX t) (anchorY t) (distances t))
         (filter (\<lambda>tr. \<not> degenerate_new t tr) (usableTriplets t))"

definition unweighted :: "(real \<times> real) list \<Rightarrow> ((real \<times> real) \<times> real) list" where
  "unweighted cs = map (\<lambda>c. (c, 1)) cs"

definition outsideBoundary :: "tag \<Rightarrow> real \<times> real \<Rightarrow> bool" where
  "outsideBoundary t p \<longleftrightarrow>
     fst p < 0 \<or> snd p < 0 \<or> fst p > anchorX t ! 2 \<or> snd p > anchorY t ! 1"

text \<open>
  The filter block fed the same weighted position \<open>(rawX, rawY)\<close> for \<open>n\<close> cycles, and the
  filter parameters of the initial state: error estimates 100, process noise 0.01,
  measurement noise 1.
\<close>

definition filterCycles :: "nat \<Rightarrow> real \<Rightarrow> real \<Rightarrow> sketch \<Rightarrow> sketch" where
  "filterCycles n rawX rawY s = ((applyKalmanFilter rawX rawY) ^^ n) s"

definition startsFresh :: "sketch \<Rightarrow> bool" where
  "startsFresh s \<longleftrightarrow>
     kalman_p_x s = 100 \<and> kalman_p_y s = 100 \<and> kalman_q s = 0.01 \<and> kalman_r s = 1"

text \<open>
  With these parameters a cycle takes the error estimate \<open>a / b\<close> to
  \<open>(100 a + b) / (100 a + 101 b)\<close>; \<open>covRatio n\<close> is the pair \<open>(a, b)\<close> after \<open>n\<close> cycles.
\<close>

definition covStep :: "nat \<times> nat \<Rightarrow> nat \<times> nat" where
  "covStep ab = (100 * fst ab + snd ab, 100 * fst ab + 101 * snd ab)"

definition covRatio :: "nat \<Rightarrow> nat \<times> nat" where
  "covRatio n = (covStep ^^ n) (100, 1)"

text \<open>The invariant of the filter under which the error estimates decrease.\<close>

definition cooling :: "sketch \<Rightarrow> bool" where
  "cooling s \<longleftrightarrow> filter_ok s
     \<and> kalman_q s * kalman_r s < kalman_p_x s * kalman_p_x s + kalman_q s * kalman_p_x s
     \<and> kalman_q s * kalman_r s < kalman_p_y s * kalman_p_y s + kalman_q s * kalman_p_y s"

text \<open>
  \<open>n\<close> cycles of \<open>calculatePosition\<close> on unchanged distances, the filter part of the
  state, and the states whose distances are the exact ones from \<open>(tagX, tagY)\<close>.
\<close>

definition positionCycles :: "nat \<Rightarrow> layout \<Rightarrow> sketch \<Rightarrow> sketch" where
  "positionCycles n L s = ((\<lambda>s. snd (calculatePosition L s)) ^^ n) s"

definition filterState :: "sketch \<Rightarrow> real \<times> real \<times> real \<times> real \<times> real \<times> real" where
  "filterState s =
     (kalman_x s, kalman_y s, kalman_p_x s, kalman_p_y s, kalman_q s, kalman_r s)"

definition atPosition :: "layout \<Rightarrow> real \<Rightarrow> real \<Rightarrow> sketch \<Rightarrow> bool" where
  "atPosition L tagX tagY s \<longleftrightarrow>
     dist_to_a0 s = calculateDistance tagX tagY (anchor_x L ! 0) (anchor_y L ! 0)
   \<and> dist_to_a1 s = calculateDistance tagX tagY (anchor_x L ! 1) (anchor_y L ! 1)
   \<and> dist_to_a2 s = calculateDistance tagX tagY (anchor_x L ! 2) (anchor_y L ! 2)
   \<and> dist_to_a3 s = calculateDistance tagX tagY (anchor_x L ! 3) (anchor_y L ! 3)"

text \<open>
  The boundary of the specification: a position is outside when a coordinate is negative
  or beyond the largest coordinate of an anchor.
\<close>

definition beyondAnchors :: "real list \<Rightarrow> real list \<Rightarrow> real \<Rightarrow> real \<Rightarrow> bool" where
  "beyondAnchors xs ys x y \<longleftrightarrow> x < 0 \<or> y < 0 \<or> x > Max (set xs) \<or> y > Max (set ys)"

subsection \<open>Concrete inputs\<close>

text \<open>
  Distances 100, 650, 650, 100 in the default layout: anchors 0 and 3 are 380 apart, so
  the two short distances cannot both be right, and no other pair is violated.
\<close>

definition shortPair :: sketch where
  "shortPair =
     initial_sketch\<lparr>dist_to_a0 := 100, dist_to_a1 := 650, dist_to_a2 := 650, dist_to_a3 := 100\<rparr>"

text \<open>
  The tag at \<open>(100, 200)\<close> with exact distances and the filter in its initial state, and
  the state one cycle later when the reading of anchor 0 has been lost.
\<close>

definition offCentre :: sketch where
  "offCentre = idealDistances default_layout 100 200 initial_sketch"

definition afterLostReading :: sketch where
  "afterLostReading = (snd (calculatePosition default_layout offCentre))\<lparr>dist_to_a0 := 0\<rparr>"

text \<open>
  The tag at the centre with the reading of anchor 0 halved (noise pattern 5 of the robust
  sketch, rounded to centimetres), and all four readings equal.
\<close>

definition halved :: sketch where
  "halved =
     initial_sketch\<lparr>dist_to_a0 := 178, dist_to_a1 := 356, dist_to_a2 := 356, dist_to_a3 := 356\<rparr>"

definition allFour :: sketch where
  "allFour =
     initial_sketch\<lparr>dist_to_a0 := 356, dist_to_a1 := 356, dist_to_a2 := 356, dist_to_a3 := 356\<rparr>"

text \<open>A layout with all anchors on the line \<open>y = 0\<close>, and one with anchors 0, 1, 2 on a wall.\<close>

definition lineLayout :: layout where
  "lineLayout = \<lparr>anchor_x = [0, 100, 200, 300], anchor_y = [0, 0, 0, 0]\<rparr>"

definition wallLayout :: layout where
  "wallLayout = \<lparr>anchor_x = [0, 0, 0, 380], anchor_y = [0, 300, 600, 0]\<rparr>"



definition fourReadings :: tag where
  "fourReadings = MaUWB_TAG_new\<lparr>distances := [300, 400, 411, 315, 0, 0, 0, 0, 0, 0]\<rparr>"

definition lineTag :: tag where
  "lineTag =
     (setAnchorPosition 3 300 0 (setAnchorPosition 2 200 0 (setAnchorPosition 1 100 0
        MaUWB_TAG_new)))\<lparr>distances := [150, 60, 70, 160, 0, 0, 0, 0, 0, 0]\<rparr>"

text \<open>
  The filter in its initial state with the tag at (20, 300), far from the initial estimate
  (190, 300), and at (160, 330), near it; the distances are exact.
\<close>

definition farFromCentre :: sketch where
  "farFromCentre = idealDistances default_layout 20 300 initial_sketch"

definition nearCentre :: sketch where
  "nearCentre = idealDistances default_layout 160 330 initial_sketch"

text \<open>
  The tag sketch with display as it starts, and with the exact distances of a tag 5 cm
  beyond the wall \<open>x = 0\<close>, at (-5, 300).
\<close>

definition initial_display :: display_sketch where
  "initial_display =
     \<lparr>dist_to_a0 = 0, dist_to_a1 = 0, dist_to_a2 = 0, dist_to_a3 = 0,
      positionX = 0, positionY = 0,
      positionX_history = replicate POSITION_HISTORY_LENGTH 0,
      positionY_history = replicate POSITION_HISTORY_LENGTH 0,
      position_history_index = 0, position_history_filled = False\<rparr>"

definition beyondWall :: display_sketch where
  "beyondWall = idealDistances default_layout (-5) 300 initial_display"

text \<open>
  A tag of the visualisation that received the exact ranges of the position (-5, 300)
  among the anchors of \<open>setup\<close>.
\<close>

definition beyondWallTag :: uwb where
  "beyondWallTag =
     UWB\<lparr>ranges := [calculateDistance (-5) 300 0 0, calculateDistance (-5) 300 0 1270,
                    calculateDistance (-5) 300 540 1270, calculateDistance (-5) 300 540 0,
                    0, 0, 0, 0],
         needsUpdate := True\<rparr>"

text \<open>
  A freshly constructed \<open>MaUWB_TAG\<close> that received the exact distances of the origin, where
  anchor 0 stands: the distance to anchor 0 is 0, so the triplet of anchors 1, 2, 3 is the
  one that is solved.
\<close>

definition tagAtOrigin :: tag where
  "tagAtOrigin =
     MaUWB_TAG\<lparr>distances :=
        [calculateDistance 0 0 0 0, calculateDistance 0 0 0 600,
         calculateDistance 0 0 380 600, calculateDistance 0 0 380 0, 0, 0, 0, 0, 0, 0]\<rparr>"

text \<open>
  The robust sketch in its initial state with the exact distances of the point (-5, 300),
  5 cm beyond the wall \<open>x = 0\<close>.
\<close>

definition westOfWall :: sketch where
  "westOfWall = idealDistances default_layout (-5) 300 initial_sketch"

section \<open>Properties\<close>

subsection \<open>Shared facts about the robust sketch\<close>

lemma filter_ok_initial: "filter_ok initial_sketch"
  by (simp add: filter_ok_def initial_sketch_def)

lemma filter_ok_applyKalmanFilter:
  assumes "filter_ok s"
  shows "filter_ok (applyKalmanFilter rawX rawY s)"
proof -
  let ?p = "kalman_p_x s + kalman_q s"
  let ?p' = "kalman_p_y s + kalman_q s"
  have pos: "0 < ?p" "0 < ?p'" "0 < kalman_r s" "0 < kalman_q s"
    using assms by (auto simp: filter_ok_def)
  have "1 - ?p / (?p + kalman_r s) = kalman_r s / (?p + kalman_r s)"
    using pos by (simp add: field_simps)
  moreover have "1 - ?p' / (?p' + kalman_r s) = kalman_r s / (?p' + kalman_r s)"
    using pos by (simp add: field_simps)
  ultimately show ?thesis
    using pos by (simp add: filter_ok_def applyKalmanFilter_def Let_def)
qed

lemma detect_keeps_filter:
  "kalman_x (detectInconsistentMeasurements L s) = kalman_x s"
  "kalman_y (detectInconsistentMeasurements L s) = kalman_y s"
  "kalman_p_x (detectInconsistentMeasurements L s) = kalman_p_x s"
  "kalman_p_y (detectInconsistentMeasurements L s) = kalman_p_y s"
  "kalman_q (detectInconsistentMeasurements L s) = kalman_q s"
  "kalman_r (detectInconsistentMeasurements L s) = kalman_r s"
  "positionX (detectInconsistentMeasurements L s) = positionX s"
  "positionY (detectInconsistentMeasurements L s) = positionY s"
  by (simp_all add: detectInconsistentMeasurements_def Let_def)

lemma detect_keeps_distances:
  "dist_to_a0 (detectInconsistentMeasurements L s) = dist_to_a0 s"
  "dist_to_a1 (detectInconsistentMeasurements L s) = dist_to_a1 s"
  "dist_to_a2 (detectInconsistentMeasurements L s) = dist_to_a2 s"
  "dist_to_a3 (detectInconsistentMeasurements L s) = dist_to_a3 s"
  by (simp_all add: detectInconsistentMeasurements_def Let_def)

text \<open>
  Whichever way \<open>calculatePosition\<close> ends, the new state is the old one, or the old one
  after the consistency check, or that one after the filter block.
\<close>

lemma calculatePosition_cases:
  "calculatePosition L s = (NeedAllDistances, s)
   \<or> calculatePosition L s = (NoValidSolutions, detectInconsistentMeasurements L s)
   \<or> (\<exists>rx ry. calculatePosition L s =
         (Position rx ry, applyKalmanFilter rx ry (detectInconsistentMeasurements L s)))"
  by (auto simp: calculatePosition_def Let_def split: option.splits)

subsection \<open>The consistency check\<close>

lemma anchorPairs_eq: "anchorPairs = [(0, 1), (0, 2), (0, 3), (1, 2), (1, 3), (2, 3)]"
  by (simp add: anchorPairs_def upt_rec)

lemma penalisePair_factor:
  assumes "i \<noteq> j"
  shows "penalisePair L (distancesOf s) (i, j) qs =
           (qs[i := qs ! i * penalty (violation L s (i, j))])
              [j := qs ! j * penalty (violation L s (i, j))]"
  using assms by (simp add: penalisePair_def violation_def penalty_def Let_def)

lemma fold_penalisePair:
  "fold (penalisePair L (distancesOf s)) anchorPairs [1, 1, 1, 1] =
     [penalty (violation L s (0, 1)) * penalty (violation L s (0, 2)) * penalty (violation L s (0, 3)),
      penalty (violation L s (0, 1)) * penalty (violation L s (1, 2)) * penalty (violation L s (1, 3)),
      penalty (violation L s (0, 2)) * penalty (violation L s (1, 2)) * penalty (violation L s (2, 3)),
      penalty (violation L s (0, 3)) * penalty (violation L s (1, 3)) * penalty (violation L s (2, 3))]"
  by (simp add: anchorPairs_eq penalisePair_factor eval_nat_numeral)

lemma detect_qualities:
  "qualitiesOf (detectInconsistentMeasurements L s) =
     [penalty (violation L s (0, 1)) * penalty (violation L s (0, 2)) * penalty (violation L s (0, 3)),
      penalty (violation L s (0, 1)) * penalty (violation L s (1, 2)) * penalty (violation L s (1, 3)),
      penalty (violation L s (0, 2)) * penalty (violation L s (1, 2)) * penalty (violation L s (2, 3)),
      penalty (violation L s (0, 3)) * penalty (violation L s (1, 3)) * penalty (violation L s (2, 3))]"
  using fold_penalisePair [of L s]
  by (simp add: detectInconsistentMeasurements_def qualitiesOf_def distancesOf_def Let_def
        eval_nat_numeral)

lemma penalty_pos: "0 < penalty v"
  by (simp add: penalty_def)

lemma penalty_power: "penalty v = (1/2) ^ (if v then 1 else 0)"
  by (simp add: penalty_def)

lemma detect_quality_pos:
  "0 < quality_a0 (detectInconsistentMeasurements L s)"
  "0 < quality_a1 (detectInconsistentMeasurements L s)"
  "0 < quality_a2 (detectInconsistentMeasurements L s)"
  "0 < quality_a3 (detectInconsistentMeasurements L s)"
  using detect_qualities [of L s] by (simp_all add: qualitiesOf_def penalty_pos)

lemma violationsOf_eq:
  "violationsOf L s 0 = (if violation L s (0, 1) then 1 else 0)
      + (if violation L s (0, 2) then 1 else 0) + (if violation L s (0, 3) then 1 else 0)"
  "violationsOf L s 1 = (if violation L s (0, 1) then 1 else 0)
      + (if violation L s (1, 2) then 1 else 0) + (if violation L s (1, 3) then 1 else 0)"
  "violationsOf L s 2 = (if violation L s (0, 2) then 1 else 0)
      + (if violation L s (1, 2) then 1 else 0) + (if violation L s (2, 3) then 1 else 0)"
  "violationsOf L s 3 = (if violation L s (0, 3) then 1 else 0)
      + (if violation L s (1, 3) then 1 else 0) + (if violation L s (2, 3) then 1 else 0)"
  by (simp_all add: violationsOf_def anchorPairs_eq)

lemma detect_quality_values:
  "quality_a0 (detectInconsistentMeasurements L s) = (1/2) ^ violationsOf L s 0"
  "quality_a1 (detectInconsistentMeasurements L s) = (1/2) ^ violationsOf L s 1"
  "quality_a2 (detectInconsistentMeasurements L s) = (1/2) ^ violationsOf L s 2"
  "quality_a3 (detectInconsistentMeasurements L s) = (1/2) ^ violationsOf L s 3"
  using detect_qualities [of L s]
  by (simp_all add: qualitiesOf_def violationsOf_eq penalty_power power_add del: One_nat_def)

text \<open>The distances between the anchors of the default layout.\<close>

lemma sqrt_360000: "sqrt 360000 = 600"
  by (rule real_sqrt_unique) simp_all

lemma sqrt_144400: "sqrt 144400 = 380"
  by (rule real_sqrt_unique) simp_all

lemma sqrt_504400_bounds: "710 < sqrt 504400" "sqrt 504400 < 711"
  by (rule real_less_rsqrt, simp) (rule real_less_lsqrt, simp_all)

text \<open>
  Claim C6. The consistency check starts from quality 1 for every anchor, whatever the
  qualities were before, and halves the quality of both anchors of every violated pair:
  afterwards the quality of an anchor is 0.5 to the power of the number of violated pairs
  it belongs to. When the pair (0, 3) is the only violated one, anchors 0 and 3 end at 0.5
  and anchors 1 and 2 at 1. (\<open>calculatePosition\<close> runs the check only when all four
  distances are positive, so that every anchor is usable.)
\<close>

theorem consistency_checker_qualities:
  "quality_a0 (detectInconsistentMeasurements L s) = (1/2) ^ violationsOf L s 0
 \<and> quality_a1 (detectInconsistentMeasurements L s) = (1/2) ^ violationsOf L s 1
 \<and> quality_a2 (detectInconsistentMeasurements L s) = (1/2) ^ violationsOf L s 2
 \<and> quality_a3 (detectInconsistentMeasurements L s) = (1/2) ^ violationsOf L s 3
 \<and> (onlyViolation L s (0, 3) \<longrightarrow>
       quality_a0 (detectInconsistentMeasurements L s) = 0.5
     \<and> quality_a3 (detectInconsistentMeasurements L s) = 0.5
     \<and> quality_a1 (detectInconsistentMeasurements L s) = 1
     \<and> quality_a2 (detectInconsistentMeasurements L s) = 1)"
proof -
  have "onlyViolation L s (0, 3) \<Longrightarrow>
          violationsOf L s 0 = 1 \<and> violationsOf L s 3 = 1
        \<and> violationsOf L s 1 = 0 \<and> violationsOf L s 2 = 0"
    by (simp add: onlyViolation_def anchorPairs_eq violationsOf_eq del: One_nat_def)
  then show ?thesis
    by (auto simp: detect_quality_values simp del: One_nat_def)
qed

lemma shortPair_violations: "onlyViolation default_layout shortPair (0, 3)"
  using sqrt_504400_bounds
  by (simp add: onlyViolation_def anchorPairs_eq violation_def shortPair_def distancesOf_def
        default_layout_def checkTriangleInequality_def calculateDistance_def
        sqrt_360000 sqrt_144400)

theorem consistency_checker_qualities_witness:
  "onlyViolation default_layout shortPair (0, 3)
 \<and> quality_a0 (detectInconsistentMeasurements default_layout shortPair) = 0.5
 \<and> quality_a3 (detectInconsistentMeasurements default_layout shortPair) = 0.5
 \<and> quality_a1 (detectInconsistentMeasurements default_layout shortPair) = 1
 \<and> quality_a2 (detectInconsistentMeasurements default_layout shortPair) = 1"
  using consistency_checker_qualities [of default_layout shortPair] shortPair_violations
  by blast

subsection \<open>Exact distances in the default layout\<close>

lemma weightedPosition_exact:
  assumes d: "dist_to_a0 s * dist_to_a0 s = tx * tx + ty * ty"
             "dist_to_a1 s * dist_to_a1 s = tx * tx + (ty - 600) * (ty - 600)"
             "dist_to_a2 s * dist_to_a2 s = (tx - 380) * (tx - 380) + (ty - 600) * (ty - 600)"
             "dist_to_a3 s * dist_to_a3 s = (tx - 380) * (tx - 380) + ty * ty"
    and q: "0 < quality_a0 s" "0 < quality_a1 s" "0 < quality_a2 s" "0 < quality_a3 s"
  shows "weightedPosition default_layout s = Some (tx, ty)"
proof -
  let ?w1 = "quality_a0 s * quality_a1 s * quality_a2 s"
  let ?w2 = "quality_a0 s * quality_a1 s * quality_a3 s"
  let ?w3 = "quality_a0 s * quality_a2 s * quality_a3 s"
  have w: "0 < ?w1" "0 < ?w2" "0 < ?w3" using q by simp_all
  then have tw: "0 < ?w1 + ?w2 + ?w3" by linarith
  have "weightedPosition default_layout s =
          Some ((tx * ?w1 + tx * ?w2 + tx * ?w3) / (?w1 + ?w2 + ?w3),
                (ty * ?w1 + ty * ?w2 + ty * ?w3) / (?w1 + ?w2 + ?w3))"
    using tw by (simp add: weightedPosition_def Let_def default_layout_def d algebra_simps)
  also have "(tx * ?w1 + tx * ?w2 + tx * ?w3) / (?w1 + ?w2 + ?w3) = tx"
    using tw by (simp add: field_simps)
  also have "(ty * ?w1 + ty * ?w2 + ty * ?w3) / (?w1 + ?w2 + ?w3) = ty"
    using tw by (simp add: field_simps)
  finally show ?thesis .
qed

lemma calculateDistance_square:
  "calculateDistance x1 y1 x2 y2 * calculateDistance x1 y1 x2 y2 =
     (x2 - x1) * (x2 - x1) + (y2 - y1) * (y2 - y1)"
  by (simp add: calculateDistance_def)

lemma calculateDistance_pos:
  "0 < calculateDistance x1 y1 x2 y2 \<longleftrightarrow> \<not> (x1 = x2 \<and> y1 = y2)"
  by (auto simp: calculateDistance_def add_nonneg_eq_0_iff less_le)

lemma idealDistances_fields:
  "dist_to_a0 (idealDistances L tx ty s) = calculateDistance tx ty (anchor_x L ! 0) (anchor_y L ! 0)"
  "dist_to_a1 (idealDistances L tx ty s) = calculateDistance tx ty (anchor_x L ! 1) (anchor_y L ! 1)"
  "dist_to_a2 (idealDistances L tx ty s) = calculateDistance tx ty (anchor_x L ! 2) (anchor_y L ! 2)"
  "dist_to_a3 (idealDistances L tx ty s) = calculateDistance tx ty (anchor_x L ! 3) (anchor_y L ! 3)"
  by (simp_all add: idealDistances_def)

lemma calculatePosition_ideal:
  assumes "(tx, ty) \<notin> {(0, 0), (0, 600), (380, 600), (380, 0)}"
  shows "calculatePosition default_layout (idealDistances default_layout tx ty s) =
           (Position tx ty,
            applyKalmanFilter tx ty
              (detectInconsistentMeasurements default_layout (idealDistances default_layout tx ty s)))"
proof -
  let ?s = "idealDistances default_layout tx ty s"
  let ?s' = "detectInconsistentMeasurements default_layout ?s"
  have pos: "\<not> (dist_to_a0 ?s \<le> 0 \<or> dist_to_a1 ?s \<le> 0 \<or> dist_to_a2 ?s \<le> 0 \<or> dist_to_a3 ?s \<le> 0)"
    using assms
    by (auto simp: idealDistances_fields default_layout_def not_le calculateDistance_pos)
  have "weightedPosition default_layout ?s' = Some (tx, ty)"
    by (rule weightedPosition_exact)
       (simp_all add: detect_keeps_distances detect_quality_pos idealDistances_fields
          default_layout_def calculateDistance_square algebra_simps)
  with pos show ?thesis
    by (simp add: calculatePosition_def Let_def)
qed

lemma offCentre_cycle:
  "calculatePosition default_layout offCentre =
     (Position 100 200,
      applyKalmanFilter 100 200 (detectInconsistentMeasurements default_layout offCentre))"
  unfolding offCentre_def by (rule calculatePosition_ideal) simp

lemma offCentre_filter:
  "kalman_x offCentre = 190" "kalman_y offCentre = 300"
  "kalman_p_x offCentre = 100" "kalman_p_y offCentre = 100"
  "kalman_q offCentre = 1/100" "kalman_r offCentre = 1"
  by (simp_all add: offCentre_def idealDistances_def initial_sketch_def)

text \<open>
  Claim C7. When \<open>calculatePosition\<close> reaches a weighted position \<open>(rawX, rawY)\<close>, each axis
  of the filter makes exactly the scalar Kalman step of the specification on its own
  estimate and error estimate: the x axis with \<open>rawX\<close>, the y axis with \<open>rawY\<close>, neither
  reading the other. The noise constants stay as they are and the published position is
  the new estimate.
\<close>

theorem kalman_step_per_axis:
  assumes "filter_ok s" and "calculatePosition L s = (Position rawX rawY, s')"
  shows "(kalman_x s', kalman_p_x s') =
           kalmanAxis (kalman_q s) (kalman_r s) (kalman_x s, kalman_p_x s) rawX
       \<and> (kalman_y s', kalman_p_y s') =
           kalmanAxis (kalman_q s) (kalman_r s) (kalman_y s, kalman_p_y s) rawY
       \<and> kalman_q s' = kalman_q s \<and> kalman_r s' = kalman_r s
       \<and> positionX s' = kalman_x s' \<and> positionY s' = kalman_y s'"
proof -
  from calculatePosition_cases [of L s] assms(2)
  have s': "s' = applyKalmanFilter rawX rawY (detectInconsistentMeasurements L s)"
    by auto
  show ?thesis
    unfolding s' by (simp add: applyKalmanFilter_def kalmanAxis_def Let_def detect_keeps_filter)
qed

theorem kalman_step_per_axis_witness:
  "filter_ok offCentre
 \<and> fst (calculatePosition default_layout offCentre) = Position 100 200
 \<and> kalman_x (snd (calculatePosition default_layout offCentre)) = 1019100 / 10101
 \<and> kalman_p_x (snd (calculatePosition default_layout offCentre)) = 10001 / 10101
 \<and> kalman_y (snd (calculatePosition default_layout offCentre)) = 2030200 / 10101
 \<and> kalman_p_y (snd (calculatePosition default_layout offCentre)) = 10001 / 10101"
proof -
  have ok: "filter_ok offCentre"
    by (simp add: filter_ok_def offCentre_def idealDistances_def initial_sketch_def)
  have run: "calculatePosition default_layout offCentre =
               (Position 100 200, snd (calculatePosition default_layout offCentre))"
    by (simp add: offCentre_cycle)
  have out: "fst (calculatePosition default_layout offCentre) = Position 100 200"
    by (simp add: offCentre_cycle)
  from kalman_step_per_axis [OF ok run] ok out show ?thesis
    by (simp add: kalmanAxis_def Let_def offCentre_filter)
qed

lemma averagePosition_exact:
  assumes d: "dist_to_a0 s * dist_to_a0 s = tx * tx + ty * ty"
             "dist_to_a1 s * dist_to_a1 s = tx * tx + (ty - 600) * (ty - 600)"
             "dist_to_a2 s * dist_to_a2 s = (tx - 380) * (tx - 380) + (ty - 600) * (ty - 600)"
             "dist_to_a3 s * dist_to_a3 s = (tx - 380) * (tx - 380) + ty * ty"
  shows "averagePosition default_layout s = Some (tx, ty)"
  by (simp add: averagePosition_def Let_def default_layout_def d algebra_simps)

lemma idealDistances_keeps:
  "kalman_x (idealDistances L tx ty s) = kalman_x s"
  "kalman_y (idealDistances L tx ty s) = kalman_y s"
  "kalman_p_x (idealDistances L tx ty s) = kalman_p_x s"
  "kalman_p_y (idealDistances L tx ty s) = kalman_p_y s"
  "kalman_q (idealDistances L tx ty s) = kalman_q s"
  "kalman_r (idealDistances L tx ty s) = kalman_r s"
  by (simp_all add: idealDistances_def)

lemma calculatePosition_test_ideal:
  assumes "(tx, ty) \<notin> {(0, 0), (0, 600), (380, 600), (380, 0)}"
  shows "calculatePosition_test default_layout (idealDistances default_layout tx ty s) =
           (Position tx ty,
            (idealDistances default_layout tx ty s)\<lparr>positionX := tx, positionY := ty\<rparr>)"
proof -
  let ?s = "idealDistances default_layout tx ty s"
  have pos: "\<not> (dist_to_a0 ?s \<le> 0 \<or> dist_to_a1 ?s \<le> 0 \<or> dist_to_a2 ?s \<le> 0 \<or> dist_to_a3 ?s \<le> 0)"
    using assms
    by (auto simp: idealDistances_fields default_layout_def not_le calculateDistance_pos)
  have "averagePosition default_layout ?s = Some (tx, ty)"
    by (rule averagePosition_exact)
       (simp_all add: idealDistances_fields default_layout_def calculateDistance_square
          algebra_simps)
  with pos show ?thesis
    by (simp add: calculatePosition_test_def)
qed

text \<open>
  Claim C1. With the anchors of the default layout and the exact distances from the tag
  position (190, 300), the position calculation ends with a position (valid) within
  0.01 cm of (190, 300) on both axes: in the robust sketch the weighted position, and
  after a filter reset also the published, filtered position; in the position
  calculation test the published position. In real arithmetic the result is exactly
  (190, 300).
\<close>

theorem exact_recovery_at_centre:
  "recovers (fst (calculatePosition default_layout (idealDistances default_layout 190 300 s)))
     190 300
 \<and> positionX (snd (calculatePosition default_layout
       (idealDistances default_layout 190 300 (resetKalmanFilter s)))) = 190
 \<and> positionY (snd (calculatePosition default_layout
       (idealDistances default_layout 190 300 (resetKalmanFilter s)))) = 300
 \<and> recovers (fst (calculatePosition_test default_layout (idealDistances default_layout 190 300 r)))
     190 300
 \<and> positionX (snd (calculatePosition_test default_layout
       (idealDistances default_layout 190 300 r))) = 190
 \<and> positionY (snd (calculatePosition_test default_layout
       (idealDistances default_layout 190 300 r))) = 300"
proof -
  have c: "((190::real), (300::real)) \<notin> {(0, 0), (0, 600), (380, 600), (380, 0)}"
    by simp
  show ?thesis
    by (simp add: calculatePosition_ideal [OF c] calculatePosition_test_ideal [OF c]
          recovers_def applyKalmanFilter_def Let_def detect_keeps_filter
          idealDistances_keeps resetKalmanFilter_def)
qed

subsection \<open>The weighted position is the weighted mean of the candidates\<close>

lemma pairC_code:
  "pairC ax ay d p q = d ! p * d ! p - d ! q * d ! q
      - (ax ! p * ax ! p + ay ! p * ay ! p) + (ax ! q * ax ! q + ay ! q * ay ! q)"
  by (simp add: pairC_def power2_eq_square)

lemma weightedPosition_candidates:
  assumes q: "0 < quality_a0 s" "0 < quality_a1 s" "0 < quality_a2 s" "0 < quality_a3 s"
  shows "weightedPosition L s =
           (if candidatesOf L s sketchTriplets = [] then None
            else Some (weightedMean (candidatesOf L s sketchTriplets)))"
proof -
  let ?w1 = "quality_a0 s * quality_a1 s * quality_a2 s"
  let ?w2 = "quality_a0 s * quality_a1 s * quality_a3 s"
  let ?w3 = "quality_a0 s * quality_a2 s * quality_a3 s"
  have w: "0 < ?w1" "0 < ?w2" "0 < ?w3" using q by simp_all
  then have tw: "0 < ?w1 + (?w2 + ?w3)" "0 < ?w1 + ?w2" "0 < ?w1 + ?w3" "0 < ?w2 + ?w3"
    by linarith+
  show ?thesis
    by (cases "degenerate L (0, 1, 2)"; cases "degenerate L (0, 1, 3)";
        cases "degenerate L (0, 2, 3)")
       (simp_all add: weightedPosition_def Let_def candidatesOf_def sketchTriplets_def
          weightedMean_def degenerate_def pairA_def pairC_code
          distancesOf_def qualitiesOf_def w tw add.assoc not_less del: One_nat_def)
qed

lemma calculatePosition_candidates:
  assumes "0 < dist_to_a0 s" "0 < dist_to_a1 s" "0 < dist_to_a2 s" "0 < dist_to_a3 s"
  shows "fst (calculatePosition L s) =
           (let cs = candidatesOf L (detectInconsistentMeasurements L s) sketchTriplets
            in if cs = [] then NoValidSolutions
               else Position (fst (weightedMean cs)) (snd (weightedMean cs)))"
  using assms
  by (simp add: calculatePosition_def Let_def weightedPosition_candidates detect_quality_pos
        not_le split: prod.splits)

subsection \<open>The newer \<open>MaUWB_TAG\<close> implementation in terms of the candidates\<close>

lemma count_valid_distances:
  "fold (\<lambda>i n. if distances t ! i > 0 then n + 1 else n) xs (n0::nat) =
     n0 + length (filter (\<lambda>i. distances t ! i > 0) xs)"
  by (induction xs arbitrary: n0) simp_all

lemma calculatePositionFromTriplet_new_solution:
  "calculatePositionFromTriplet_new t i j k =
     (if degenerate_new t (i, j, k) then None
      else Some (tripletSolution (anchorX t) (anchorY t) (distances t) (i, j, k)))"
  by (simp add: calculatePositionFromTriplet_new_def degenerate_new_def Let_def pairA_def
        pairC_def power2_eq_square mult.commute)

lemma addTriplet_step:
  "addTriplet t tr (sx, sy, n) =
     (if usableTriplet t tr \<and> \<not> degenerate_new t tr
      then (sx + fst (tripletSolution (anchorX t) (anchorY t) (distances t) tr),
            sy + snd (tripletSolution (anchorX t) (anchorY t) (distances t) tr), n + 1)
      else (sx, sy, n))"
  by (cases tr)
     (simp add: addTriplet_def calculatePositionFromTriplet_new_solution case_prod_beta
        del: tripletSolution.simps)

lemma fold_addTriplet:
  "fold (addTriplet t) ts (sx, sy, n) =
     (sx + sum_list (map (\<lambda>tr. fst (tripletSolution (anchorX t) (anchorY t) (distances t) tr))
                      (filter (\<lambda>tr. usableTriplet t tr \<and> \<not> degenerate_new t tr) ts)),
      sy + sum_list (map (\<lambda>tr. snd (tripletSolution (anchorX t) (anchorY t) (distances t) tr))
                      (filter (\<lambda>tr. usableTriplet t tr \<and> \<not> degenerate_new t tr) ts)),
      n + length (filter (\<lambda>tr. usableTriplet t tr \<and> \<not> degenerate_new t tr) ts))"
proof (induction ts arbitrary: sx sy n)
  case Nil
  then show ?case by simp
next
  case (Cons tr ts)
  show ?case
    by (simp add: addTriplet_step Cons.IH add.assoc del: tripletSolution.simps)
qed

lemma sums_new:
  "fold (addTriplet t) (triplets (numAnchors t)) (0, 0, 0) =
     (sum_list (map fst (solutions_new t)), sum_list (map snd (solutions_new t)),
      length (solutions_new t))"
  by (simp add: fold_addTriplet solutions_new_def usableTriplets_def comp_def conj_commute
        del: tripletSolution.simps)

lemma weightedMean_unweighted:
  "weightedMean (unweighted cs) =
     (sum_list (map fst cs) / real (length cs), sum_list (map snd cs) / real (length cs))"
proof -
  have "sum_list (map snd (unweighted cs)) = real (length cs)"
    by (induction cs) (simp_all add: unweighted_def)
  moreover have "map (\<lambda>c. fst (fst c) * snd c) (unweighted cs) = map fst cs"
    "map (\<lambda>c. snd (fst c) * snd c) (unweighted cs) = map snd cs"
    by (simp_all add: unweighted_def comp_def)
  ultimately show ?thesis
    by (simp add: weightedMean_def)
qed

lemma calculatePosition_new_outcome:
  "fst (calculatePosition_new t) =
     (if numAnchors t < 3 then NeedThreeAnchors
      else if length (usableAnchors t) < 3 then NeedThreeDistances
      else if solutions_new t = [] then NoValidSolutions
      else if outsideBoundary t (weightedMean (unweighted (solutions_new t))) then OutsideBoundaries
      else if positionHistoryLength t = 0 then DivisionByZero
      else Position (fst (weightedMean (unweighted (solutions_new t))))
                    (snd (weightedMean (unweighted (solutions_new t)))))"
  by (auto simp: calculatePosition_new_def Let_def count_valid_distances usableAnchors_def
        sums_new weightedMean_unweighted outsideBoundary_def updatePositionHistory_new_def
        not_le not_less)

lemma calculatePosition_new_unchanged:
  "\<not> valid_outcome (fst (calculatePosition_new t)) \<Longrightarrow> snd (calculatePosition_new t) = t"
  by (auto simp: calculatePosition_new_def Let_def valid_outcome_def
        split: if_splits prod.splits option.splits)

subsection \<open>Evaluation on concrete inputs\<close>

lemma MaUWB_TAG_new_fields:
  "numAnchors MaUWB_TAG_new = 4"
  "anchorX MaUWB_TAG_new = [0, 0, 380, 380, 0, 0, 0, 0, 0, 0]"
  "anchorY MaUWB_TAG_new = [0, 600, 600, 0, 0, 0, 0, 0, 0, 0]"
  "positionHistoryLength MaUWB_TAG_new = 1"
  "currentX MaUWB_TAG_new = 0" "currentY MaUWB_TAG_new = 0"
  by (simp_all add: MaUWB_TAG_new_def setDefaultAnchors_def setAnchorPosition_def
        MAX_ANCHORS_def eval_nat_numeral)

lemma triplets_4: "triplets 4 = [(0, 1, 2), (0, 1, 3), (0, 2, 3), (1, 2, 3)]"
  by (simp add: triplets_def upt_rec)



lemma fourReadings_run:
  "fst (calculatePosition_new fourReadings) = Position (135327 / 760) (36269 / 150)"
  by (simp add: calculatePosition_new_outcome fourReadings_def MaUWB_TAG_new_fields
        usableAnchors_def solutions_new_def usableTriplets_def triplets_4 degenerate_new_def
        weightedMean_unweighted outsideBoundary_def pairA_def pairC_def upt_rec)

subsection \<open>When the estimate is invalid\<close>

lemma usableAnchors_le: "length (usableAnchors t) \<le> numAnchors t"
  unfolding usableAnchors_def by (rule order_trans [OF length_filter_le]) simp

lemma solutions_new_empty:
  "solutions_new t = [] \<longleftrightarrow> (\<forall>tr \<in> set (usableTriplets t). degenerate_new t tr)"
  by (auto simp: solutions_new_def filter_empty_conv)



subsection \<open>Degenerate triplets and the weighted mean\<close>

lemma candidatesOf_remove1:
  "degenerate L tr \<Longrightarrow> candidatesOf L s (remove1 tr ts) = candidatesOf L s ts"
  unfolding candidatesOf_def by (induction ts) auto

lemma candidatesOf_empty:
  "candidatesOf L s ts = [] \<longleftrightarrow> (\<forall>tr \<in> set ts. degenerate L tr)"
  by (auto simp: candidatesOf_def filter_empty_conv)

lemma default_layout_anchor_distances:
  "calculateDistance 0 0 0 600 = 600" "calculateDistance 0 0 380 600 = sqrt 504400"
  "calculateDistance 0 0 380 0 = 380" "calculateDistance 0 600 380 600 = 380"
  "calculateDistance 0 600 380 0 = sqrt 504400" "calculateDistance 380 600 380 0 = 600"
  by (simp_all add: calculateDistance_def sqrt_360000 sqrt_144400)

lemma default_layout_fields:
  "anchor_x default_layout = [0, 0, 380, 380]" "anchor_y default_layout = [0, 600, 600, 0]"
  by (simp_all add: default_layout_def)

lemma halved_qualities:
  "qualitiesOf (detectInconsistentMeasurements default_layout halved) = [1/4, 1/2, 1/2, 1]"
  using sqrt_504400_bounds
  by (simp add: detect_qualities penalty_def violation_def halved_def distancesOf_def
        default_layout_def checkTriangleInequality_def default_layout_anchor_distances)

lemma halved_run:
  "fst (calculatePosition default_layout halved) = Position (42724 / 475) (126237 / 500)"
proof -
  have d: "0 < dist_to_a0 halved" "0 < dist_to_a1 halved" "0 < dist_to_a2 halved"
    "0 < dist_to_a3 halved" "distancesOf halved = [178, 356, 356, 356]"
    by (simp_all add: halved_def distancesOf_def)
  have ds: "distancesOf (detectInconsistentMeasurements default_layout halved) = [178, 356, 356, 356]"
    by (simp add: distancesOf_def detect_keeps_distances halved_def)
  show ?thesis
    by (simp add: calculatePosition_candidates d(1-4) candidatesOf_def sketchTriplets_def
          degenerate_def weightedMean_def halved_qualities ds default_layout_fields pairA_def
          pairC_def Let_def)
qed

text \<open>
  Claim C4. Whenever some triplet is not degenerate, the position that the calculation
  returns is the weighted mean of the solutions of the non-degenerate triplets. In the
  robust sketch (all four distances positive) the weight of a triplet is the product of
  the qualities of its three anchors, as the consistency check of the same cycle set
  them. In the newer \<open>MaUWB_TAG\<close> (three usable anchors, average inside the boundary)
  every weight is 1.
\<close>

theorem weighted_mean_of_candidates:
  "(0 < dist_to_a0 s \<and> 0 < dist_to_a1 s \<and> 0 < dist_to_a2 s \<and> 0 < dist_to_a3 s
      \<and> (\<exists>tr \<in> set sketchTriplets. \<not> degenerate L tr) \<longrightarrow>
    fst (calculatePosition L s) =
      Position
        (fst (weightedMean (candidatesOf L (detectInconsistentMeasurements L s) sketchTriplets)))
        (snd (weightedMean (candidatesOf L (detectInconsistentMeasurements L s) sketchTriplets))))
 \<and> (0 < positionHistoryLength t \<and> 3 \<le> length (usableAnchors t)
      \<and> (\<exists>tr \<in> set (usableTriplets t). \<not> degenerate_new t tr)
      \<and> \<not> outsideBoundary t (weightedMean (unweighted (solutions_new t))) \<longrightarrow>
    fst (calculatePosition_new t) =
      Position (fst (weightedMean (unweighted (solutions_new t))))
               (snd (weightedMean (unweighted (solutions_new t)))))"
proof (intro conjI impI)
  assume a: "0 < dist_to_a0 s \<and> 0 < dist_to_a1 s \<and> 0 < dist_to_a2 s \<and> 0 < dist_to_a3 s
      \<and> (\<exists>tr \<in> set sketchTriplets. \<not> degenerate L tr)"
  then have "candidatesOf L (detectInconsistentMeasurements L s) sketchTriplets \<noteq> []"
    by (simp add: candidatesOf_empty)
  with a show "fst (calculatePosition L s) =
      Position
        (fst (weightedMean (candidatesOf L (detectInconsistentMeasurements L s) sketchTriplets)))
        (snd (weightedMean (candidatesOf L (detectInconsistentMeasurements L s) sketchTriplets)))"
    by (simp add: calculatePosition_candidates Let_def)
next
  assume a: "0 < positionHistoryLength t \<and> 3 \<le> length (usableAnchors t)
      \<and> (\<exists>tr \<in> set (usableTriplets t). \<not> degenerate_new t tr)
      \<and> \<not> outsideBoundary t (weightedMean (unweighted (solutions_new t)))"
  then have "solutions_new t \<noteq> []"
    by (simp add: solutions_new_empty)
  with a usableAnchors_le [of t] show "fst (calculatePosition_new t) =
      Position (fst (weightedMean (unweighted (solutions_new t))))
               (snd (weightedMean (unweighted (solutions_new t))))"
    by (simp add: calculatePosition_new_outcome)
qed

lemma halved_candidates:
  "candidatesOf default_layout (detectInconsistentMeasurements default_layout halved) sketchTriplets =
     [((190, 22079 / 100), 1 / 16), ((12337 / 190, 22079 / 100), 1 / 8), ((12337 / 190, 300), 1 / 8)]"
proof -
  have ds: "distancesOf (detectInconsistentMeasurements default_layout halved) = [178, 356, 356, 356]"
    by (simp add: distancesOf_def detect_keeps_distances halved_def)
  show ?thesis
    by (simp add: candidatesOf_def sketchTriplets_def degenerate_def halved_qualities ds
          default_layout_fields pairA_def pairC_def)
qed

lemma fourReadings_solutions:
  "solutions_new fourReadings =
     [(135479 / 760, 725 / 3), (27035 / 152, 725 / 3), (27035 / 152, 6048 / 25),
      (135479 / 760, 6048 / 25)]"
  by (simp add: fourReadings_def MaUWB_TAG_new_fields solutions_new_def usableTriplets_def
        triplets_4 degenerate_new_def pairA_def pairC_def)

theorem weighted_mean_of_candidates_witness:
  "0 < dist_to_a0 halved \<and> 0 < dist_to_a1 halved \<and> 0 < dist_to_a2 halved \<and> 0 < dist_to_a3 halved
 \<and> (\<exists>tr \<in> set sketchTriplets. \<not> degenerate default_layout tr)
 \<and> qualitiesOf (detectInconsistentMeasurements default_layout halved) = [1/4, 1/2, 1/2, 1]
 \<and> candidatesOf default_layout (detectInconsistentMeasurements default_layout halved) sketchTriplets =
     [((190, 22079 / 100), 1 / 16), ((12337 / 190, 22079 / 100), 1 / 8), ((12337 / 190, 300), 1 / 8)]
 \<and> fst (calculatePosition default_layout halved) = Position (42724 / 475) (126237 / 500)
 \<and> 0 < positionHistoryLength fourReadings \<and> 3 \<le> length (usableAnchors fourReadings)
 \<and> (\<exists>tr \<in> set (usableTriplets fourReadings). \<not> degenerate_new fourReadings tr)
 \<and> \<not> outsideBoundary fourReadings (weightedMean (unweighted (solutions_new fourReadings)))
 \<and> fst (calculatePosition_new fourReadings) = Position (135327 / 760) (36269 / 150)"
proof -
  have h1: "0 < dist_to_a0 halved \<and> 0 < dist_to_a1 halved \<and> 0 < dist_to_a2 halved
      \<and> 0 < dist_to_a3 halved \<and> (\<exists>tr \<in> set sketchTriplets. \<not> degenerate default_layout tr)"
    by (simp add: halved_def sketchTriplets_def degenerate_def default_layout_fields pairA_def)
  have m: "weightedMean (unweighted (solutions_new fourReadings)) = (135327 / 760, 36269 / 150)"
    by (simp add: fourReadings_solutions weightedMean_unweighted)
  have h2: "0 < positionHistoryLength fourReadings \<and> 3 \<le> length (usableAnchors fourReadings)
      \<and> (\<exists>tr \<in> set (usableTriplets fourReadings). \<not> degenerate_new fourReadings tr)
      \<and> \<not> outsideBoundary fourReadings (weightedMean (unweighted (solutions_new fourReadings)))"
    unfolding m
    by (simp add: fourReadings_def MaUWB_TAG_new_fields usableAnchors_def usableTriplets_def
          triplets_4 degenerate_new_def outsideBoundary_def pairA_def upt_rec)
  from weighted_mean_of_candidates [of halved default_layout fourReadings] h1 h2
  have r: "fst (calculatePosition default_layout halved) =
          Position
            (fst (weightedMean (candidatesOf default_layout
                   (detectInconsistentMeasurements default_layout halved) sketchTriplets)))
            (snd (weightedMean (candidatesOf default_layout
                   (detectInconsistentMeasurements default_layout halved) sketchTriplets)))"
    and n: "fst (calculatePosition_new fourReadings) =
          Position (fst (weightedMean (unweighted (solutions_new fourReadings))))
                   (snd (weightedMean (unweighted (solutions_new fourReadings))))"
    by blast+
  from r have "fst (calculatePosition default_layout halved) = Position (42724 / 475) (126237 / 500)"
    by (simp add: halved_candidates weightedMean_def)
  moreover from n have "fst (calculatePosition_new fourReadings) = Position (135327 / 760) (36269 / 150)"
    by (simp add: m)
  ultimately show ?thesis
    using h1 h2
    by (simp add: halved_qualities halved_candidates)
qed

subsection \<open>Degenerate triplets are left out\<close>

lemma wallLayout_fields:
  "anchor_x wallLayout = [0, 0, 0, 380]" "anchor_y wallLayout = [0, 300, 600, 0]"
  by (simp_all add: wallLayout_def)

lemma lineLayout_fields:
  "anchor_x lineLayout = [0, 100, 200, 300]" "anchor_y lineLayout = [0, 0, 0, 0]"
  by (simp_all add: lineLayout_def)

lemma sqrt_90000: "sqrt 90000 = 300"
  by (rule real_sqrt_unique) simp_all

lemma sqrt_234400_bound: "sqrt 234400 < 485"
  by (rule real_less_lsqrt) simp_all

lemma allFour_fields:
  "dist_to_a0 allFour = 356" "dist_to_a1 allFour = 356" "dist_to_a2 allFour = 356"
  "dist_to_a3 allFour = 356" "distancesOf allFour = [356, 356, 356, 356]"
  by (simp_all add: allFour_def distancesOf_def)

lemma wall_qualities:
  "qualitiesOf (detectInconsistentMeasurements wallLayout allFour) = [1, 1, 1, 1]"
  using sqrt_504400_bounds sqrt_234400_bound
  by (simp add: detect_qualities penalty_def violation_def allFour_fields wallLayout_fields
        checkTriangleInequality_def calculateDistance_def sqrt_360000 sqrt_144400 sqrt_90000)

lemma wall_degenerate:
  "degenerate wallLayout (0, 1, 2)" "\<not> degenerate wallLayout (0, 1, 3)"
  "\<not> degenerate wallLayout (0, 2, 3)"
  by (simp_all add: degenerate_def wallLayout_fields pairA_def)

lemma line_degenerate: "\<forall>tr \<in> set sketchTriplets. degenerate lineLayout tr"
  by (simp add: sketchTriplets_def degenerate_def lineLayout_fields pairA_def)

lemma lineTag_fields:
  "numAnchors lineTag = 4"
  "anchorX lineTag = [0, 100, 200, 300, 0, 0, 0, 0, 0, 0]"
  "anchorY lineTag = [0, 0, 0, 0, 0, 0, 0, 0, 0, 0]"
  "distances lineTag = [150, 60, 70, 160, 0, 0, 0, 0, 0, 0]"
  by (simp_all add: lineTag_def MaUWB_TAG_new_fields setAnchorPosition_def MAX_ANCHORS_def
        eval_nat_numeral)

lemma lineTag_degenerate: "\<forall>tr \<in> set (usableTriplets lineTag). degenerate_new lineTag tr"
  by (simp add: usableTriplets_def lineTag_fields triplets_4 degenerate_new_def pairA_def)

text \<open>
  Claim C3. In the robust sketch (all four distances positive) a triplet whose determinant
  is at most \<open>1e-6\<close> in absolute value is left out: the outcome is the one computed from
  the other triplets alone, their solutions and their weights; and when all three
  triplets are degenerate the calculation ends at "no valid solutions", before the filter.
  In the newer \<open>MaUWB_TAG\<close>, whose test is \<open>|den| < 1e-6\<close>, the calculation yields no
  position and leaves the object unchanged when every triplet of usable anchors is
  degenerate. The witness has anchors 0, 1, 2 on one wall, and all anchors on the line
  \<open>y = 0\<close>.
\<close>

theorem degenerate_triplets_discarded:
  "(0 < dist_to_a0 s \<and> 0 < dist_to_a1 s \<and> 0 < dist_to_a2 s \<and> 0 < dist_to_a3 s
      \<and> tr \<in> set sketchTriplets \<and> degenerate L tr \<longrightarrow>
    fst (calculatePosition L s) =
      (let cs = candidatesOf L (detectInconsistentMeasurements L s) (remove1 tr sketchTriplets)
       in if cs = [] then NoValidSolutions
          else Position (fst (weightedMean cs)) (snd (weightedMean cs))))
 \<and> (0 < dist_to_a0 s \<and> 0 < dist_to_a1 s \<and> 0 < dist_to_a2 s \<and> 0 < dist_to_a3 s
      \<and> (\<forall>tr \<in> set sketchTriplets. degenerate L tr) \<longrightarrow>
    calculatePosition L s = (NoValidSolutions, detectInconsistentMeasurements L s))
 \<and> ((\<forall>tr \<in> set (usableTriplets t). degenerate_new t tr) \<longrightarrow>
    \<not> valid_outcome (fst (calculatePosition_new t)) \<and> snd (calculatePosition_new t) = t)"
proof (intro conjI impI)
  assume a: "0 < dist_to_a0 s \<and> 0 < dist_to_a1 s \<and> 0 < dist_to_a2 s \<and> 0 < dist_to_a3 s
      \<and> tr \<in> set sketchTriplets \<and> degenerate L tr"
  then show "fst (calculatePosition L s) =
      (let cs = candidatesOf L (detectInconsistentMeasurements L s) (remove1 tr sketchTriplets)
       in if cs = [] then NoValidSolutions
          else Position (fst (weightedMean cs)) (snd (weightedMean cs)))"
    by (simp add: calculatePosition_candidates candidatesOf_remove1)
next
  assume a: "0 < dist_to_a0 s \<and> 0 < dist_to_a1 s \<and> 0 < dist_to_a2 s \<and> 0 < dist_to_a3 s
      \<and> (\<forall>tr \<in> set sketchTriplets. degenerate L tr)"
  then have "fst (calculatePosition L s) = NoValidSolutions"
    by (simp add: calculatePosition_candidates candidatesOf_empty)
  with calculatePosition_cases [of L s]
  show "calculatePosition L s = (NoValidSolutions, detectInconsistentMeasurements L s)"
    by auto
next
  assume a: "\<forall>tr \<in> set (usableTriplets t). degenerate_new t tr"
  then have "solutions_new t = []"
    by (simp add: solutions_new_empty)
  then show "\<not> valid_outcome (fst (calculatePosition_new t))"
    by (simp add: calculatePosition_new_outcome valid_outcome_def)
  then show "snd (calculatePosition_new t) = t"
    by (rule calculatePosition_new_unchanged)
qed

theorem degenerate_triplets_discarded_witness:
  "0 < dist_to_a0 allFour \<and> 0 < dist_to_a1 allFour \<and> 0 < dist_to_a2 allFour
 \<and> 0 < dist_to_a3 allFour
 \<and> (0, 1, 2) \<in> set sketchTriplets \<and> degenerate wallLayout (0, 1, 2)
 \<and> candidatesOf wallLayout (detectInconsistentMeasurements wallLayout allFour)
      (remove1 (0, 1, 2) sketchTriplets) = [((190, 150), 1), ((190, 300), 1)]
 \<and> fst (calculatePosition wallLayout allFour) = Position 190 225
 \<and> list_all (degenerate lineLayout) sketchTriplets
 \<and> calculatePosition lineLayout allFour =
      (NoValidSolutions, detectInconsistentMeasurements lineLayout allFour)
 \<and> list_all (degenerate_new lineTag) (usableTriplets lineTag)
 \<and> 3 \<le> length (usableAnchors lineTag)
 \<and> \<not> valid_outcome (fst (calculatePosition_new lineTag))
 \<and> snd (calculatePosition_new lineTag) = lineTag"
proof -
  have d: "0 < dist_to_a0 allFour \<and> 0 < dist_to_a1 allFour \<and> 0 < dist_to_a2 allFour
      \<and> 0 < dist_to_a3 allFour"
    by (simp add: allFour_fields)
  have t: "(0, 1, 2) \<in> set sketchTriplets"
    by (simp add: sketchTriplets_def)
  have ds: "distancesOf (detectInconsistentMeasurements wallLayout allFour) = [356, 356, 356, 356]"
    by (simp add: distancesOf_def detect_keeps_distances allFour_fields)
  have cs: "candidatesOf wallLayout (detectInconsistentMeasurements wallLayout allFour)
      (remove1 (0, 1, 2) sketchTriplets) = [((190, 150), 1), ((190, 300), 1)]"
    by (simp add: candidatesOf_def sketchTriplets_def degenerate_def wall_qualities ds
          wallLayout_fields pairA_def pairC_def)
  have u: "3 \<le> length (usableAnchors lineTag)"
    by (simp add: usableAnchors_def lineTag_fields upt_rec)
  from degenerate_triplets_discarded [of allFour "(0, 1, 2)" wallLayout lineTag] d t
    wall_degenerate(1)
  have "fst (calculatePosition wallLayout allFour) =
      (let cs = candidatesOf wallLayout (detectInconsistentMeasurements wallLayout allFour)
                  (remove1 (0, 1, 2) sketchTriplets)
       in if cs = [] then NoValidSolutions
          else Position (fst (weightedMean cs)) (snd (weightedMean cs)))"
    by blast
  then have "fst (calculatePosition wallLayout allFour) = Position 190 225"
    by (simp add: cs weightedMean_def Let_def del: One_nat_def)
  moreover from degenerate_triplets_discarded [of allFour "(0, 1, 2)" lineLayout lineTag] d
    line_degenerate lineTag_degenerate
  have "calculatePosition lineLayout allFour =
          (NoValidSolutions, detectInconsistentMeasurements lineLayout allFour)"
    and "\<not> valid_outcome (fst (calculatePosition_new lineTag))"
    and "snd (calculatePosition_new lineTag) = lineTag"
    by blast+
  ultimately show ?thesis
    using d t wall_degenerate(1) cs line_degenerate lineTag_degenerate u
    by (simp add: list_all_iff)
qed

subsection \<open>Cycles that end without a position\<close>

lemma no_position_iff:
  "\<not> valid_outcome (fst (calculatePosition L s)) \<longleftrightarrow>
     dist_to_a0 s \<le> 0 \<or> dist_to_a1 s \<le> 0 \<or> dist_to_a2 s \<le> 0 \<or> dist_to_a3 s \<le> 0
     \<or> list_all (degenerate L) sketchTriplets"
proof (cases "dist_to_a0 s \<le> 0 \<or> dist_to_a1 s \<le> 0 \<or> dist_to_a2 s \<le> 0 \<or> dist_to_a3 s \<le> 0")
  case True
  then have "calculatePosition L s = (NeedAllDistances, s)"
    by (simp add: calculatePosition_def)
  with True show ?thesis by (auto simp: valid_outcome_def)
next
  case False
  then have pos: "0 < dist_to_a0 s" "0 < dist_to_a1 s" "0 < dist_to_a2 s" "0 < dist_to_a3 s"
    by simp_all
  have e: "candidatesOf L s' sketchTriplets = [] \<longleftrightarrow> list_all (degenerate L) sketchTriplets"
    for s'
    by (simp add: candidatesOf_def filter_empty_conv list_all_iff)
  show ?thesis
    using False by (simp add: calculatePosition_candidates [OF pos] Let_def e valid_outcome_def)
qed

text \<open>
  Claim C9, as the code has it. A cycle of \<open>calculatePosition\<close> ends without a position
  exactly when a distance is missing or all three triplets are degenerate: the sketch has
  no other rejection, and no boundary test. Such a cycle leaves the filter as it was: both
  estimates, both error estimates, the noise constants and the published position are
  unchanged. The witness runs one valid cycle, then loses the reading of anchor 0 and runs
  a second cycle: the filter state after the second cycle is the state after the first.
\<close>

theorem filter_hold_on_invalid:
  "(\<not> valid_outcome (fst (calculatePosition L s)) \<longleftrightarrow>
      dist_to_a0 s \<le> 0 \<or> dist_to_a1 s \<le> 0 \<or> dist_to_a2 s \<le> 0 \<or> dist_to_a3 s \<le> 0
      \<or> list_all (degenerate L) sketchTriplets)
 \<and> (\<not> valid_outcome (fst (calculatePosition L s)) \<longrightarrow>
        kalman_x (snd (calculatePosition L s)) = kalman_x s
      \<and> kalman_y (snd (calculatePosition L s)) = kalman_y s
      \<and> kalman_p_x (snd (calculatePosition L s)) = kalman_p_x s
      \<and> kalman_p_y (snd (calculatePosition L s)) = kalman_p_y s
      \<and> kalman_q (snd (calculatePosition L s)) = kalman_q s
      \<and> kalman_r (snd (calculatePosition L s)) = kalman_r s
      \<and> positionX (snd (calculatePosition L s)) = positionX s
      \<and> positionY (snd (calculatePosition L s)) = positionY s)"
proof (intro conjI impI)
  show "\<not> valid_outcome (fst (calculatePosition L s)) \<longleftrightarrow>
      dist_to_a0 s \<le> 0 \<or> dist_to_a1 s \<le> 0 \<or> dist_to_a2 s \<le> 0 \<or> dist_to_a3 s \<le> 0
      \<or> list_all (degenerate L) sketchTriplets"
    by (rule no_position_iff)
next
  assume inv: "\<not> valid_outcome (fst (calculatePosition L s))"
  then have c: "calculatePosition L s = (NeedAllDistances, s)
      \<or> calculatePosition L s = (NoValidSolutions, detectInconsistentMeasurements L s)"
    using calculatePosition_cases [of L s] by (auto simp: valid_outcome_def)
  from c show "kalman_x (snd (calculatePosition L s)) = kalman_x s"
    by (auto simp: detect_keeps_filter)
  from c show "kalman_y (snd (calculatePosition L s)) = kalman_y s"
    by (auto simp: detect_keeps_filter)
  from c show "kalman_p_x (snd (calculatePosition L s)) = kalman_p_x s"
    by (auto simp: detect_keeps_filter)
  from c show "kalman_p_y (snd (calculatePosition L s)) = kalman_p_y s"
    by (auto simp: detect_keeps_filter)
  from c show "kalman_q (snd (calculatePosition L s)) = kalman_q s"
    by (auto simp: detect_keeps_filter)
  from c show "kalman_r (snd (calculatePosition L s)) = kalman_r s"
    by (auto simp: detect_keeps_filter)
  from c show "positionX (snd (calculatePosition L s)) = positionX s"
    by (auto simp: detect_keeps_filter)
  from c show "positionY (snd (calculatePosition L s)) = positionY s"
    by (auto simp: detect_keeps_filter)
qed

theorem filter_hold_on_invalid_witness:
  "valid_outcome (fst (calculatePosition default_layout offCentre))
 \<and> dist_to_a0 afterLostReading \<le> 0
 \<and> \<not> valid_outcome (fst (calculatePosition default_layout afterLostReading))
 \<and> kalman_x (snd (calculatePosition default_layout afterLostReading)) = 1019100 / 10101
 \<and> kalman_y (snd (calculatePosition default_layout afterLostReading)) = 2030200 / 10101
 \<and> kalman_p_x (snd (calculatePosition default_layout afterLostReading)) = 10001 / 10101
 \<and> kalman_p_y (snd (calculatePosition default_layout afterLostReading)) = 10001 / 10101"
proof -
  have first: "valid_outcome (fst (calculatePosition default_layout offCentre))"
    by (simp add: offCentre_cycle valid_outcome_def)
  have lost: "dist_to_a0 afterLostReading \<le> 0"
    by (simp add: afterLostReading_def)
  have state: "kalman_x afterLostReading = 1019100 / 10101"
    "kalman_y afterLostReading = 2030200 / 10101"
    "kalman_p_x afterLostReading = 10001 / 10101"
    "kalman_p_y afterLostReading = 10001 / 10101"
    by (simp_all add: afterLostReading_def offCentre_cycle applyKalmanFilter_def Let_def
          detect_keeps_filter offCentre_filter)
  from filter_hold_on_invalid [of default_layout afterLostReading] lost
  have second: "\<not> valid_outcome (fst (calculatePosition default_layout afterLostReading))"
    and "kalman_x (snd (calculatePosition default_layout afterLostReading)) = kalman_x afterLostReading"
    and "kalman_y (snd (calculatePosition default_layout afterLostReading)) = kalman_y afterLostReading"
    and "kalman_p_x (snd (calculatePosition default_layout afterLostReading)) = kalman_p_x afterLostReading"
    and "kalman_p_y (snd (calculatePosition default_layout afterLostReading)) = kalman_p_y afterLostReading"
    by blast+
  then show ?thesis
    using first lost by (simp add: state)
qed

lemma westOfWall_cycle:
  "calculatePosition default_layout westOfWall =
     (Position (-5) 300,
      applyKalmanFilter (-5) 300 (detectInconsistentMeasurements default_layout westOfWall))"
  unfolding westOfWall_def by (rule calculatePosition_ideal) simp

lemma westOfWall_filter:
  "kalman_x westOfWall = 190" "kalman_y westOfWall = 300"
  "kalman_p_x westOfWall = 100" "kalman_p_y westOfWall = 100"
  "kalman_q westOfWall = 1/100" "kalman_r westOfWall = 1"
  by (simp_all add: westOfWall_def idealDistances_def initial_sketch_def)

text \<open>
  Claim C9 as stated fails: with the exact distances of the point (-5, 300) the weighted
  position is (-5, 300), outside the rectangle of the anchors, which the specification
  counts as no valid estimate. The sketch filters it all the same: the estimate and the
  error estimate of the x axis change, and the published \<open>positionX\<close> is negative.
\<close>

theorem filter_hold_on_invalid_counterexample:
  "0 < dist_to_a0 westOfWall \<and> 0 < dist_to_a1 westOfWall
 \<and> 0 < dist_to_a2 westOfWall \<and> 0 < dist_to_a3 westOfWall
 \<and> fst (calculatePosition default_layout westOfWall) = Position (-5) 300
 \<and> beyondAnchors (anchor_x default_layout) (anchor_y default_layout) (-5) 300
 \<and> kalman_x westOfWall = 190
 \<and> kalman_x (snd (calculatePosition default_layout westOfWall)) = - 31005 / 10101
 \<and> kalman_p_x westOfWall = 100
 \<and> kalman_p_x (snd (calculatePosition default_layout westOfWall)) = 10001 / 10101
 \<and> positionX (snd (calculatePosition default_layout westOfWall)) < 0"
proof -
  have d: "0 < dist_to_a0 westOfWall \<and> 0 < dist_to_a1 westOfWall
      \<and> 0 < dist_to_a2 westOfWall \<and> 0 < dist_to_a3 westOfWall"
    by (simp add: westOfWall_def idealDistances_fields calculateDistance_pos
          default_layout_def)
  have b: "beyondAnchors (anchor_x default_layout) (anchor_y default_layout) (-5) 300"
    by (simp add: beyondAnchors_def)
  have x: "kalman_x (snd (calculatePosition default_layout westOfWall)) = - 31005 / 10101"
    "kalman_p_x (snd (calculatePosition default_layout westOfWall)) = 10001 / 10101"
    "positionX (snd (calculatePosition default_layout westOfWall)) < 0"
    by (simp_all add: westOfWall_cycle applyKalmanFilter_def Let_def detect_keeps_filter
          westOfWall_filter)
  show ?thesis
    using d b x by (simp add: westOfWall_cycle westOfWall_filter)
qed

subsection \<open>The filter under a constant measurement\<close>

lemma gain_complement:
  fixes x k r :: real
  shows "x + k * (r - x) - r = (1 - k) * (x - r)"
  by (simp add: algebra_simps)

lemma applyKalmanFilter_estimates:
  "kalman_x (applyKalmanFilter rx ry s) =
     kalman_x s + (kalman_p_x s + kalman_q s) / (kalman_p_x s + kalman_q s + kalman_r s)
       * (rx - kalman_x s)"
  "kalman_y (applyKalmanFilter rx ry s) =
     kalman_y s + (kalman_p_y s + kalman_q s) / (kalman_p_y s + kalman_q s + kalman_r s)
       * (ry - kalman_y s)"
  by (simp_all add: applyKalmanFilter_def Let_def)

lemma applyKalmanFilter_fields:
  "kalman_q (applyKalmanFilter rx ry s) = kalman_q s"
  "kalman_r (applyKalmanFilter rx ry s) = kalman_r s"
  "kalman_p_x (applyKalmanFilter rx ry s) =
     (1 - (kalman_p_x s + kalman_q s) / (kalman_p_x s + kalman_q s + kalman_r s))
       * (kalman_p_x s + kalman_q s)"
  "kalman_p_y (applyKalmanFilter rx ry s) =
     (1 - (kalman_p_y s + kalman_q s) / (kalman_p_y s + kalman_q s + kalman_r s))
       * (kalman_p_y s + kalman_q s)"
  by (simp_all add: applyKalmanFilter_def Let_def)

lemma applyKalmanFilter_distance:
  "kalman_x (applyKalmanFilter rx ry s) - rx =
     (1 - (kalman_p_x s + kalman_q s) / (kalman_p_x s + kalman_q s + kalman_r s))
       * (kalman_x s - rx)"
  "kalman_y (applyKalmanFilter rx ry s) - ry =
     (1 - (kalman_p_y s + kalman_q s) / (kalman_p_y s + kalman_q s + kalman_r s))
       * (kalman_y s - ry)"
  unfolding applyKalmanFilter_estimates by (rule gain_complement)+

lemma filterCycles_simps:
  "filterCycles 0 rx ry s = s"
  "filterCycles (Suc n) rx ry s = applyKalmanFilter rx ry (filterCycles n rx ry s)"
  by (simp_all add: filterCycles_def)

text \<open>
  One scalar step: the error estimate \<open>p\<close> goes to \<open>(p + q) r / (p + q + r)\<close>. It decreases
  as long as \<open>p\<^sup>2 + q p > q r\<close>, and the step keeps this inequality.
\<close>

lemma cov_step:
  fixes p q r :: real
  assumes "0 < p" "0 < q" "0 < r" "q * r < p * p + q * p"
  defines "p' \<equiv> (1 - (p + q) / (p + q + r)) * (p + q)"
  shows "0 < p'" "p' < p" "q * r < p' * p' + q * p'"
proof -
  have s: "0 < p + q + r" "0 < p + q" using assms by linarith+
  have p': "p' = (p + q) * r / (p + q + r)"
    unfolding p'_def using s by (simp add: field_simps)
  show "0 < p'" unfolding p' using s assms by simp
  have "(p + q) * r < p * (p + q + r)"
    using assms(4) by (simp add: algebra_simps)
  then show "p' < p"
    unfolding p' using s by (simp add: pos_divide_less_eq)
  define S where "S = p + q + r"
  have S: "0 < S" using s by (simp add: S_def)
  have pS: "p' * S = (p + q) * r"
    unfolding p' S_def using s by simp
  have "(p' * p' + q * p' - q * r) * (S * S) =
          (p' * S) * (p' * S) + q * (p' * S) * S - q * r * (S * S)"
    by (simp add: algebra_simps)
  also have "\<dots> = ((p + q) * r) * ((p + q) * r) + q * ((p + q) * r) * S - q * r * (S * S)"
    by (simp only: pS)
  also have "\<dots> = r * r * (p * p + q * p - q * r)"
    unfolding S_def by (simp add: algebra_simps)
  finally have "(p' * p' + q * p' - q * r) * (S * S) = r * r * (p * p + q * p - q * r)" .
  moreover have "0 < r * r * (p * p + q * p - q * r)"
    using assms by simp
  ultimately have "0 < (p' * p' + q * p' - q * r) * (S * S)" by simp
  then have "0 < p' * p' + q * p' - q * r"
    using S by (simp add: zero_less_mult_iff)
  then show "q * r < p' * p' + q * p'" by linarith
qed

lemma cooling_step:
  assumes "cooling s"
  shows "cooling (applyKalmanFilter rx ry s)"
    and "kalman_p_x (applyKalmanFilter rx ry s) < kalman_p_x s"
    and "kalman_p_y (applyKalmanFilter rx ry s) < kalman_p_y s"
proof -
  have ok: "0 < kalman_p_x s" "0 < kalman_p_y s" "0 < kalman_q s" "0 < kalman_r s"
    and gx: "kalman_q s * kalman_r s < kalman_p_x s * kalman_p_x s + kalman_q s * kalman_p_x s"
    and gy: "kalman_q s * kalman_r s < kalman_p_y s * kalman_p_y s + kalman_q s * kalman_p_y s"
    using assms by (simp_all add: cooling_def filter_ok_def)
  note x = cov_step [OF ok(1) ok(3) ok(4) gx]
  note y = cov_step [OF ok(2) ok(3) ok(4) gy]
  show "cooling (applyKalmanFilter rx ry s)"
    using x(1,3) y(1,3) ok(3,4)
    by (simp add: cooling_def filter_ok_def applyKalmanFilter_fields)
  show "kalman_p_x (applyKalmanFilter rx ry s) < kalman_p_x s"
    using x(2) by (simp add: applyKalmanFilter_fields)
  show "kalman_p_y (applyKalmanFilter rx ry s) < kalman_p_y s"
    using y(2) by (simp add: applyKalmanFilter_fields)
qed

lemma cooling_cycles:
  assumes "startsFresh s"
  shows "cooling (filterCycles n rx ry s)"
proof (induction n)
  case 0
  show ?case
    using assms by (simp add: filterCycles_simps startsFresh_def cooling_def filter_ok_def)
next
  case (Suc n)
  then show ?case
    by (simp add: filterCycles_simps cooling_step(1))
qed

text \<open>The error estimate and the distance to the measurement after \<open>n\<close> cycles.\<close>

lemma ratio_step:
  fixes a b :: real
  assumes "0 < b" "0 \<le> a"
  shows "1 - (a / b + 1 / 100) / (a / b + 1 / 100 + 1) = 100 * b / (100 * a + 101 * b)"
    and "(1 - (a / b + 1 / 100) / (a / b + 1 / 100 + 1)) * (a / b + 1 / 100)
           = (100 * a + b) / (100 * a + 101 * b)"
proof -
  have nz: "b \<noteq> 0" "100 * a + 101 * b \<noteq> 0" "100 * b \<noteq> 0" using assms by auto
  have p: "a / b + 1 / 100 = (100 * a + b) / (100 * b)"
    using nz by (simp add: divide_simps)
  have s: "(100 * a + b) / (100 * b) + 1 = (100 * a + 101 * b) / (100 * b)"
    using nz by (simp add: divide_simps)
  have k: "(a / b + 1 / 100) / (a / b + 1 / 100 + 1) = (100 * a + b) / (100 * a + 101 * b)"
    unfolding p s using nz by simp
  have c: "1 - (100 * a + b) / (100 * a + 101 * b) = 100 * b / (100 * a + 101 * b)"
    using nz by (simp add: divide_simps)
  show 2: "1 - (a / b + 1 / 100) / (a / b + 1 / 100 + 1) = 100 * b / (100 * a + 101 * b)"
    by (simp only: k c)
  have "(1 - (a / b + 1 / 100) / (a / b + 1 / 100 + 1)) * (a / b + 1 / 100)
          = 100 * b / (100 * a + 101 * b) * (a / b + 1 / 100)"
    by (simp only: 2)
  also have "\<dots> = 100 * b / (100 * a + 101 * b) * ((100 * a + b) / (100 * b))"
    by (simp only: p)
  also have "\<dots> = (100 * a + b) / (100 * a + 101 * b)"
    using nz by simp
  finally show "(1 - (a / b + 1 / 100) / (a / b + 1 / 100 + 1)) * (a / b + 1 / 100)
           = (100 * a + b) / (100 * a + 101 * b)" .
qed

lemma covRatio_Suc: "covRatio (Suc n) = covStep (covRatio n)"
  by (simp add: covRatio_def)

lemma covRatio_pos: "0 < snd (covRatio n)"
  by (induction n) (simp_all add: covRatio_def covStep_def)

lemma fresh_cycles:
  assumes "startsFresh s"
  shows "kalman_q (filterCycles n rx ry s) = 1 / 100
       \<and> kalman_r (filterCycles n rx ry s) = 1
       \<and> kalman_p_x (filterCycles n rx ry s) = real (fst (covRatio n)) / real (snd (covRatio n))
       \<and> kalman_p_y (filterCycles n rx ry s) = real (fst (covRatio n)) / real (snd (covRatio n))
       \<and> kalman_x (filterCycles n rx ry s) - rx
           = 100 ^ n / real (snd (covRatio n)) * (kalman_x s - rx)
       \<and> kalman_y (filterCycles n rx ry s) - ry
           = 100 ^ n / real (snd (covRatio n)) * (kalman_y s - ry)"
proof (induction n)
  case 0
  show ?case
    using assms by (simp add: filterCycles_simps startsFresh_def covRatio_def)
next
  case (Suc n)
  let ?a = "real (fst (covRatio n))" and ?b = "real (snd (covRatio n))"
  let ?t = "filterCycles n rx ry s"
  have b: "0 < ?b" "0 \<le> ?a" using covRatio_pos [of n] by simp_all
  note r = ratio_step [OF b]
  have q: "kalman_q ?t = 1 / 100" and rr: "kalman_r ?t = 1"
    and px: "kalman_p_x ?t = ?a / ?b" and py: "kalman_p_y ?t = ?a / ?b"
    and x: "kalman_x ?t - rx = 100 ^ n / ?b * (kalman_x s - rx)"
    and y: "kalman_y ?t - ry = 100 ^ n / ?b * (kalman_y s - ry)"
    using Suc by simp_all
  have next_ratio: "real (fst (covRatio (Suc n))) = 100 * ?a + ?b"
    "real (snd (covRatio (Suc n))) = 100 * ?a + 101 * ?b"
    by (simp_all add: covRatio_Suc covStep_def)
  have e: "100 * ?b / (100 * ?a + 101 * ?b) * (100 ^ n / ?b * c)
             = 100 ^ Suc n / (100 * ?a + 101 * ?b) * c" for c :: real
    using b by simp
  have "kalman_p_x (applyKalmanFilter rx ry ?t) = (100 * ?a + ?b) / (100 * ?a + 101 * ?b)"
    by (simp only: applyKalmanFilter_fields px q rr r(2))
  moreover have "kalman_p_y (applyKalmanFilter rx ry ?t) = (100 * ?a + ?b) / (100 * ?a + 101 * ?b)"
    by (simp only: applyKalmanFilter_fields py q rr r(2))
  moreover have "kalman_x (applyKalmanFilter rx ry ?t) - rx
      = 100 ^ Suc n / (100 * ?a + 101 * ?b) * (kalman_x s - rx)"
    by (simp only: applyKalmanFilter_distance px q rr r(1) x e)
  moreover have "kalman_y (applyKalmanFilter rx ry ?t) - ry
      = 100 ^ Suc n / (100 * ?a + 101 * ?b) * (kalman_y s - ry)"
    by (simp only: applyKalmanFilter_distance py q rr r(1) y e)
  ultimately show ?case
    by (simp only: filterCycles_simps applyKalmanFilter_fields(1,2) q rr next_ratio simp_thms)
qed

lemma covStep_pair: "covStep (a, b) = (100 * a + b, 100 * a + 101 * b)"
  by (simp add: covStep_def)

lemma covStep_numeral:
  "(covStep ^^ numeral k) ab = (covStep ^^ pred_numeral k) (covStep ab)"
  unfolding numeral_eq_Suc [of k] by (simp only: funpow_Suc_right comp_apply)

lemma covRatio_20:
  "covRatio 20 = (3581836772629673967168535645997316183673801,
                  36231489741079792626416646110987684915043901)"
  by (simp add: covRatio_def covStep_numeral covStep_pair)

lemma covRatio_30:
  "covRatio 30 = (956551293968118839463611823917603082104932304430152737292975801,
                  10003383856012777385992846711578631305891629623062321727934545901)"
  by (simp add: covRatio_def covStep_numeral covStep_pair)

lemma shrink_20:
  assumes "startsFresh s"
  shows "\<bar>kalman_x (filterCycles 20 rx ry s) - rx\<bar> \<le> \<bar>kalman_x s - rx\<bar> / 3620"
    and "\<bar>kalman_y (filterCycles 20 rx ry s) - ry\<bar> \<le> \<bar>kalman_y s - ry\<bar> / 3620"
proof -
  have c: "(100::real) ^ 20 / real (snd (covRatio 20)) \<le> 1 / 3620"
    "0 \<le> (100::real) ^ 20 / real (snd (covRatio 20))"
    by (simp_all add: covRatio_20)
  have "\<bar>kalman_x (filterCycles 20 rx ry s) - rx\<bar>
          = 100 ^ 20 / real (snd (covRatio 20)) * \<bar>kalman_x s - rx\<bar>"
    using fresh_cycles [OF assms, of 20 rx ry] c(2) by (simp only: abs_mult abs_of_nonneg)
  also have "\<dots> \<le> 1 / 3620 * \<bar>kalman_x s - rx\<bar>"
    by (rule mult_right_mono [OF c(1)]) simp
  finally show "\<bar>kalman_x (filterCycles 20 rx ry s) - rx\<bar> \<le> \<bar>kalman_x s - rx\<bar> / 3620"
    by simp
  have "\<bar>kalman_y (filterCycles 20 rx ry s) - ry\<bar>
          = 100 ^ 20 / real (snd (covRatio 20)) * \<bar>kalman_y s - ry\<bar>"
    using fresh_cycles [OF assms, of 20 rx ry] c(2) by (simp only: abs_mult abs_of_nonneg)
  also have "\<dots> \<le> 1 / 3620 * \<bar>kalman_y s - ry\<bar>"
    by (rule mult_right_mono [OF c(1)]) simp
  finally show "\<bar>kalman_y (filterCycles 20 rx ry s) - ry\<bar> \<le> \<bar>kalman_y s - ry\<bar> / 3620"
    by simp
qed

lemma gain_bounds:
  fixes P r :: real
  assumes "0 < P" "0 < r"
  shows "0 \<le> 1 - P / (P + r)" "1 - P / (P + r) \<le> 1"
  using assms by (simp_all add: field_simps)

lemma distance_step:
  assumes "cooling s"
  shows "\<bar>kalman_x (applyKalmanFilter rx ry s) - rx\<bar> \<le> \<bar>kalman_x s - rx\<bar>"
    and "\<bar>kalman_y (applyKalmanFilter rx ry s) - ry\<bar> \<le> \<bar>kalman_y s - ry\<bar>"
proof -
  have ok: "0 < kalman_p_x s + kalman_q s" "0 < kalman_p_y s + kalman_q s" "0 < kalman_r s"
    using assms by (simp_all add: cooling_def filter_ok_def)
  note gx = gain_bounds [OF ok(1) ok(3)]
  note gy = gain_bounds [OF ok(2) ok(3)]
  have "\<bar>kalman_x (applyKalmanFilter rx ry s) - rx\<bar>
          = (1 - (kalman_p_x s + kalman_q s) / (kalman_p_x s + kalman_q s + kalman_r s))
              * \<bar>kalman_x s - rx\<bar>"
    using gx(1) by (simp only: applyKalmanFilter_distance abs_mult abs_of_nonneg)
  also have "\<dots> \<le> 1 * \<bar>kalman_x s - rx\<bar>"
    by (rule mult_right_mono [OF gx(2)]) simp
  finally show "\<bar>kalman_x (applyKalmanFilter rx ry s) - rx\<bar> \<le> \<bar>kalman_x s - rx\<bar>"
    by simp
  have "\<bar>kalman_y (applyKalmanFilter rx ry s) - ry\<bar>
          = (1 - (kalman_p_y s + kalman_q s) / (kalman_p_y s + kalman_q s + kalman_r s))
              * \<bar>kalman_y s - ry\<bar>"
    using gy(1) by (simp only: applyKalmanFilter_distance abs_mult abs_of_nonneg)
  also have "\<dots> \<le> 1 * \<bar>kalman_y s - ry\<bar>"
    by (rule mult_right_mono [OF gy(2)]) simp
  finally show "\<bar>kalman_y (applyKalmanFilter rx ry s) - ry\<bar> \<le> \<bar>kalman_y s - ry\<bar>"
    by simp
qed

lemma distance_antimono:
  assumes "startsFresh s" "m \<le> n"
  shows "\<bar>kalman_x (filterCycles n rx ry s) - rx\<bar> \<le> \<bar>kalman_x (filterCycles m rx ry s) - rx\<bar>
       \<and> \<bar>kalman_y (filterCycles n rx ry s) - ry\<bar> \<le> \<bar>kalman_y (filterCycles m rx ry s) - ry\<bar>"
  using assms(2)
proof (induction rule: dec_induct)
  case base
  show ?case by simp
next
  case (step n)
  note d = distance_step [OF cooling_cycles [OF assms(1), of n rx ry], of rx ry]
  from step.IH
  have ix: "\<bar>kalman_x (filterCycles n rx ry s) - rx\<bar> \<le> \<bar>kalman_x (filterCycles m rx ry s) - rx\<bar>"
    and iy: "\<bar>kalman_y (filterCycles n rx ry s) - ry\<bar> \<le> \<bar>kalman_y (filterCycles m rx ry s) - ry\<bar>"
    by simp_all
  show ?case
    unfolding filterCycles_simps
    using order_trans [OF d(1) ix] order_trans [OF d(2) iy] by simp
qed

lemma startsFresh_initial: "startsFresh initial_sketch"
  by (simp add: startsFresh_def initial_sketch_def)

subsection \<open>Cycles of \<open>calculatePosition\<close> feed the filter a constant measurement\<close>

lemma atPosition_idealDistances:
  "atPosition L tx ty (idealDistances L tx ty s)"
  by (simp add: atPosition_def idealDistances_fields)

lemma atPosition_fixed:
  "atPosition L tx ty s \<Longrightarrow> idealDistances L tx ty s = s"
  by (simp add: atPosition_def idealDistances_def)

lemma atPosition_cycle:
  assumes "(tx, ty) \<notin> {(0, 0), (0, 600), (380, 600), (380, 0)}"
    and "atPosition default_layout tx ty s"
  shows "snd (calculatePosition default_layout s) =
           applyKalmanFilter tx ty (detectInconsistentMeasurements default_layout s)"
    and "atPosition default_layout tx ty (snd (calculatePosition default_layout s))"
    and "filterState (snd (calculatePosition default_layout s)) =
           filterState (applyKalmanFilter tx ty s)"
proof -
  show 1: "snd (calculatePosition default_layout s) =
           applyKalmanFilter tx ty (detectInconsistentMeasurements default_layout s)"
    using calculatePosition_ideal [OF assms(1), of s] atPosition_fixed [OF assms(2)]
    by simp
  show "atPosition default_layout tx ty (snd (calculatePosition default_layout s))"
    using assms(2) unfolding 1
    by (simp add: atPosition_def applyKalmanFilter_def Let_def detect_keeps_distances)
  show "filterState (snd (calculatePosition default_layout s)) =
           filterState (applyKalmanFilter tx ty s)"
    unfolding 1
    by (simp add: filterState_def applyKalmanFilter_def Let_def detect_keeps_filter)
qed

lemma filterState_step:
  "filterState s = filterState t \<Longrightarrow>
     filterState (applyKalmanFilter rx ry s) = filterState (applyKalmanFilter rx ry t)"
  by (simp add: filterState_def applyKalmanFilter_def Let_def)

lemma positionCycles_filter:
  assumes "(tx, ty) \<notin> {(0, 0), (0, 600), (380, 600), (380, 0)}"
    and "atPosition default_layout tx ty s"
  shows "atPosition default_layout tx ty (positionCycles n default_layout s)
       \<and> filterState (positionCycles n default_layout s) = filterState (filterCycles n tx ty s)"
proof (induction n)
  case 0
  show ?case using assms(2) by (simp add: positionCycles_def filterCycles_simps)
next
  case (Suc n)
  let ?t = "positionCycles n default_layout s"
  have step: "positionCycles (Suc n) default_layout s = snd (calculatePosition default_layout ?t)"
    by (simp add: positionCycles_def)
  from Suc have at: "atPosition default_layout tx ty ?t"
    and fs: "filterState ?t = filterState (filterCycles n tx ty s)"
    by simp_all
  have "filterState (snd (calculatePosition default_layout ?t))
          = filterState (applyKalmanFilter tx ty ?t)"
    by (rule atPosition_cycle(3) [OF assms(1) at])
  also have "\<dots> = filterState (applyKalmanFilter tx ty (filterCycles n tx ty s))"
    by (rule filterState_step [OF fs])
  finally show ?case
    using atPosition_cycle(2) [OF assms(1) at]
    by (simp add: step filterCycles_simps)
qed

lemma weightedPosition_cong:
  assumes "dist_to_a0 s = dist_to_a0 t" "dist_to_a1 s = dist_to_a1 t"
    "dist_to_a2 s = dist_to_a2 t" "dist_to_a3 s = dist_to_a3 t"
    "quality_a0 s = quality_a0 t" "quality_a1 s = quality_a1 t"
    "quality_a2 s = quality_a2 t" "quality_a3 s = quality_a3 t"
  shows "weightedPosition L s = weightedPosition L t"
  by (simp only: weightedPosition_def assms)

lemma detect_same_distances:
  assumes "distancesOf s = distancesOf t"
  shows "quality_a0 (detectInconsistentMeasurements L s) = quality_a0 (detectInconsistentMeasurements L t)"
    "quality_a1 (detectInconsistentMeasurements L s) = quality_a1 (detectInconsistentMeasurements L t)"
    "quality_a2 (detectInconsistentMeasurements L s) = quality_a2 (detectInconsistentMeasurements L t)"
    "quality_a3 (detectInconsistentMeasurements L s) = quality_a3 (detectInconsistentMeasurements L t)"
  using assms by (simp_all add: detectInconsistentMeasurements_def distancesOf_def Let_def)

lemma calculatePosition_same_distances:
  assumes "distancesOf s = distancesOf t"
  shows "fst (calculatePosition L s) = fst (calculatePosition L t)"
proof -
  have d: "dist_to_a0 s = dist_to_a0 t" "dist_to_a1 s = dist_to_a1 t"
    "dist_to_a2 s = dist_to_a2 t" "dist_to_a3 s = dist_to_a3 t"
    using assms by (simp_all add: distancesOf_def)
  have w: "weightedPosition L (detectInconsistentMeasurements L s)
             = weightedPosition L (detectInconsistentMeasurements L t)"
    by (rule weightedPosition_cong)
       (simp_all add: detect_keeps_distances d detect_same_distances [OF assms])
  show ?thesis
    by (simp add: calculatePosition_def Let_def d w split: option.splits prod.splits)
qed

lemma cycle_keeps_distances:
  "distancesOf (snd (calculatePosition L s)) = distancesOf s"
  using calculatePosition_cases [of L s]
  by (auto simp: distancesOf_def detect_keeps_distances applyKalmanFilter_def Let_def)

lemma cycle_filter:
  assumes "fst (calculatePosition L s) = Position rx ry"
  shows "filterState (snd (calculatePosition L s)) = filterState (applyKalmanFilter rx ry s)"
proof -
  from assms calculatePosition_cases [of L s]
  have "snd (calculatePosition L s) = applyKalmanFilter rx ry (detectInconsistentMeasurements L s)"
    by auto
  moreover have "filterState (detectInconsistentMeasurements L s) = filterState s"
    by (simp add: filterState_def detect_keeps_filter)
  then have "filterState (applyKalmanFilter rx ry (detectInconsistentMeasurements L s))
               = filterState (applyKalmanFilter rx ry s)"
    by (rule filterState_step)
  ultimately show ?thesis
    by simp
qed

lemma positionCycles_Suc:
  "positionCycles (Suc n) L s = snd (calculatePosition L (positionCycles n L s))"
  by (simp add: positionCycles_def)

lemma positionCycles_raw:
  assumes "fst (calculatePosition L s) = Position rx ry"
  shows "distancesOf (positionCycles n L s) = distancesOf s
       \<and> filterState (positionCycles n L s) = filterState (filterCycles n rx ry s)"
proof (induction n)
  case 0
  show ?case by (simp add: positionCycles_def filterCycles_simps)
next
  case (Suc n)
  let ?t = "positionCycles n L s"
  from Suc have d: "distancesOf ?t = distancesOf s"
    and f: "filterState ?t = filterState (filterCycles n rx ry s)" by simp_all
  have "fst (calculatePosition L ?t) = Position rx ry"
    using calculatePosition_same_distances [OF d, of L] assms by simp
  then have "filterState (snd (calculatePosition L ?t)) = filterState (applyKalmanFilter rx ry ?t)"
    by (rule cycle_filter)
  also have "\<dots> = filterState (applyKalmanFilter rx ry (filterCycles n rx ry s))"
    using f by (rule filterState_step)
  finally have "filterState (positionCycles (Suc n) L s) = filterState (filterCycles (Suc n) rx ry s)"
    by (simp only: positionCycles_Suc filterCycles_simps)
  moreover have "distancesOf (positionCycles (Suc n) L s) = distancesOf s"
    by (simp only: positionCycles_Suc cycle_keeps_distances d)
  ultimately show ?case by simp
qed

lemma idealDistances_startsFresh:
  "startsFresh (idealDistances L tx ty s) = startsFresh s"
  by (simp add: startsFresh_def idealDistances_keeps)

text \<open>
  Claim C8, as the code has it. From the initial filter parameters and under a constant
  measurement, the error estimate of each axis never increases from one cycle to the next,
  and from the twentieth cycle on the estimate of an axis is within 0.01 cm of the
  measurement when it started at most 36 cm from it. Cycles of \<open>calculatePosition\<close> on
  unchanged distances feed the filter the same weighted position every time.
\<close>

theorem constant_measurement_convergence:
  assumes "startsFresh s"
  shows "kalman_p_x (filterCycles (Suc n) rawX rawY s) \<le> kalman_p_x (filterCycles n rawX rawY s)
       \<and> kalman_p_y (filterCycles (Suc n) rawX rawY s) \<le> kalman_p_y (filterCycles n rawX rawY s)
       \<and> (\<bar>kalman_x s - rawX\<bar> \<le> 36 \<and> 20 \<le> n \<longrightarrow>
            \<bar>kalman_x (filterCycles n rawX rawY s) - rawX\<bar> < 0.01)
       \<and> (\<bar>kalman_y s - rawY\<bar> \<le> 36 \<and> 20 \<le> n \<longrightarrow>
            \<bar>kalman_y (filterCycles n rawX rawY s) - rawY\<bar> < 0.01)
       \<and> (fst (calculatePosition L s) = Position rawX rawY \<longrightarrow>
            filterState (positionCycles n L s) = filterState (filterCycles n rawX rawY s))"
proof -
  have dec: "kalman_p_x (filterCycles (Suc n) rawX rawY s) \<le> kalman_p_x (filterCycles n rawX rawY s)"
    "kalman_p_y (filterCycles (Suc n) rawX rawY s) \<le> kalman_p_y (filterCycles n rawX rawY s)"
    using cooling_step(2,3) [OF cooling_cycles [OF assms, of n rawX rawY], of rawX rawY]
    by (simp_all add: filterCycles_simps)
  note sh = shrink_20 [OF assms, of rawX rawY]
  have small: "(36::real) / 3620 < 0.01" by simp
  have x: "\<bar>kalman_x (filterCycles n rawX rawY s) - rawX\<bar> < 0.01"
    if "\<bar>kalman_x s - rawX\<bar> \<le> 36 \<and> 20 \<le> n"
  proof -
    have "\<bar>kalman_x s - rawX\<bar> / 3620 \<le> 36 / 3620" using that by simp
    moreover have "\<bar>kalman_x (filterCycles n rawX rawY s) - rawX\<bar>
        \<le> \<bar>kalman_x (filterCycles 20 rawX rawY s) - rawX\<bar>"
      using distance_antimono [OF assms, of 20 n rawX rawY] that by blast
    ultimately show ?thesis using sh(1) small by linarith
  qed
  have y: "\<bar>kalman_y (filterCycles n rawX rawY s) - rawY\<bar> < 0.01"
    if "\<bar>kalman_y s - rawY\<bar> \<le> 36 \<and> 20 \<le> n"
  proof -
    have "\<bar>kalman_y s - rawY\<bar> / 3620 \<le> 36 / 3620" using that by simp
    moreover have "\<bar>kalman_y (filterCycles n rawX rawY s) - rawY\<bar>
        \<le> \<bar>kalman_y (filterCycles 20 rawX rawY s) - rawY\<bar>"
      using distance_antimono [OF assms, of 20 n rawX rawY] that by blast
    ultimately show ?thesis using sh(2) small by linarith
  qed
  have l: "filterState (positionCycles n L s) = filterState (filterCycles n rawX rawY s)"
    if "fst (calculatePosition L s) = Position rawX rawY"
    using positionCycles_raw [OF that, of n] by blast
  show ?thesis
    using dec x y l by blast
qed

lemma nearCentre_facts:
  "startsFresh nearCentre" "kalman_x nearCentre = 190" "kalman_y nearCentre = 300"
  "kalman_p_x nearCentre = 100" "atPosition default_layout 160 330 nearCentre"
  by (simp_all add: nearCentre_def idealDistances_startsFresh startsFresh_initial
        idealDistances_keeps atPosition_idealDistances)
     (simp_all add: initial_sketch_def)

lemma farFromCentre_facts:
  "startsFresh farFromCentre" "kalman_x farFromCentre = 190"
  "atPosition default_layout 20 300 farFromCentre"
  by (simp_all add: farFromCentre_def idealDistances_startsFresh startsFresh_initial
        idealDistances_keeps atPosition_idealDistances)
     (simp_all add: initial_sketch_def)

lemma nearCentre_cycle:
  "fst (calculatePosition default_layout nearCentre) = Position 160 330"
proof -
  have c: "((160::real), (330::real)) \<notin> {(0, 0), (0, 600), (380, 600), (380, 0)}"
    by simp
  show ?thesis
    unfolding nearCentre_def by (simp only: calculatePosition_ideal [OF c] fst_conv)
qed

theorem constant_measurement_convergence_witness:
  "startsFresh nearCentre
 \<and> \<bar>kalman_x nearCentre - 160\<bar> \<le> 36 \<and> \<bar>kalman_y nearCentre - 330\<bar> \<le> 36
 \<and> fst (calculatePosition default_layout nearCentre) = Position 160 330
 \<and> kalman_p_x (filterCycles 1 160 330 nearCentre) \<le> 100
 \<and> \<bar>kalman_x (filterCycles 20 160 330 nearCentre) - 160\<bar> < 0.01
 \<and> \<bar>kalman_y (filterCycles 20 160 330 nearCentre) - 330\<bar> < 0.01
 \<and> filterState (positionCycles 20 default_layout nearCentre)
      = filterState (filterCycles 20 160 330 nearCentre)"
proof -
  have h: "\<bar>kalman_x nearCentre - 160\<bar> \<le> 36" "\<bar>kalman_y nearCentre - 330\<bar> \<le> 36"
    by (simp_all add: nearCentre_facts)
  have p0: "kalman_p_x (filterCycles 0 160 330 nearCentre) = 100"
    by (simp add: filterCycles_simps nearCentre_facts)
  have n: "(20::nat) \<le> 20" by simp
  from constant_measurement_convergence [OF nearCentre_facts(1), of 0 160 330]
  have "kalman_p_x (filterCycles 1 160 330 nearCentre) \<le> 100"
    by (simp add: p0)
  moreover from constant_measurement_convergence
      [OF nearCentre_facts(1), of 20 160 330 default_layout] h n nearCentre_cycle
  have "\<bar>kalman_x (filterCycles 20 160 330 nearCentre) - 160\<bar> < 0.01"
    "\<bar>kalman_y (filterCycles 20 160 330 nearCentre) - 330\<bar> < 0.01"
    "filterState (positionCycles 20 default_layout nearCentre)
      = filterState (filterCycles 20 160 330 nearCentre)"
    by blast+
  ultimately show ?thesis
    using h nearCentre_facts(1) nearCentre_cycle by blast
qed

text \<open>
  Claim C8 as stated fails: the initial estimate is (190, 300), and with the tag at
  (20, 300) and exact distances the estimate of the x axis is still more than 0.01 cm
  from the measurement after 20 cycles, and after 30.
\<close>

theorem constant_measurement_counterexample:
  "startsFresh farFromCentre
 \<and> fst (calculatePosition default_layout farFromCentre) = Position 20 300
 \<and> \<not> \<bar>kalman_x (filterCycles 20 20 300 farFromCentre) - 20\<bar> < 0.01
 \<and> \<not> \<bar>kalman_x (filterCycles 30 20 300 farFromCentre) - 20\<bar> < 0.01
 \<and> \<not> \<bar>kalman_x (positionCycles 20 default_layout farFromCentre) - 20\<bar> < 0.01
 \<and> \<not> \<bar>kalman_x (positionCycles 30 default_layout farFromCentre) - 20\<bar> < 0.01"
proof -
  have c: "((20::real), (300::real)) \<notin> {(0, 0), (0, 600), (380, 600), (380, 0)}"
    by simp
  have out: "fst (calculatePosition default_layout farFromCentre) = Position 20 300"
    unfolding farFromCentre_def by (simp add: calculatePosition_ideal [OF c])
  have x0: "kalman_x farFromCentre - 20 = 170"
    by (simp add: farFromCentre_facts)
  have "kalman_x (filterCycles 20 20 300 farFromCentre) - 20
          = 100 ^ 20 / real (snd (covRatio 20)) * 170"
    using fresh_cycles [OF farFromCentre_facts(1), of 20 20 300] by (simp only: x0)
  then have a: "\<not> \<bar>kalman_x (filterCycles 20 20 300 farFromCentre) - 20\<bar> < 0.01"
    by (simp add: covRatio_20)
  have "kalman_x (filterCycles 30 20 300 farFromCentre) - 20
          = 100 ^ 30 / real (snd (covRatio 30)) * 170"
    using fresh_cycles [OF farFromCentre_facts(1), of 30 20 300] by (simp only: x0)
  then have b: "\<not> \<bar>kalman_x (filterCycles 30 20 300 farFromCentre) - 20\<bar> < 0.01"
    by (simp add: covRatio_30)
  have same: "kalman_x (positionCycles n default_layout farFromCentre)
                = kalman_x (filterCycles n 20 300 farFromCentre)" for n
    using positionCycles_filter [OF c farFromCentre_facts(3), of n]
    by (simp add: filterState_def)
  from a b out farFromCentre_facts(1) show ?thesis
    by (simp add: same)
qed

subsection \<open>Positions outside the rectangle of the anchors\<close>

lemma Max_nth_ge:
  fixes xs :: "real list"
  assumes "i < length xs"
  shows "xs ! i \<le> Max (set xs)"
  using assms by simp

lemma beyondWall_triangulate:
  "triangulate default_layout beyondWall = Some (-5, 300)"
  by (simp add: triangulate_def beyondWall_def idealDistances_def calculateDistance_def
        default_layout_fields Let_def power2_eq_square [symmetric] power_divide)

lemma beyondWall_distances:
  "0 < dist_to_a0 beyondWall" "0 < dist_to_a1 beyondWall"
  "0 < dist_to_a2 beyondWall" "0 < dist_to_a3 beyondWall"
  by (simp_all add: beyondWall_def idealDistances_def calculateDistance_def
        default_layout_fields)

lemma setup_anc_fields:
  "length setup_anc = 4"
  "map loc_x setup_anc = [0, 0, 540, 540]" "map loc_y setup_anc = [0, 1270, 1270, 0]"
  by (simp_all add: setup_anc_def set_location_def UWB_def)

lemma beyondWallTag_average:
  "cal_average setup_anc (ranges beyondWallTag) = Some (-5, 300)"
  by (simp add: cal_average_def beyondWallTag_def setup_anc_def set_location_def UWB_def
        calculateDistance_def Let_def power2_eq_square [symmetric] power_divide)

lemma beyondWallTag_ranges:
  "needsUpdate beyondWallTag" "4 \<le> length (ranges beyondWallTag)"
  "0 < ranges beyondWallTag ! 0" "0 < ranges beyondWallTag ! 1"
  "0 < ranges beyondWallTag ! 2" "0 < ranges beyondWallTag ! 3"
  by (simp_all add: beyondWallTag_def UWB_def calculateDistance_def)

text \<open>
  Claim C5. In the tag sketch with display and in \<open>UWB.cal\<close> of the visualisation, when
  the linear solve succeeded and the resulting position has a negative coordinate or a
  coordinate beyond the largest coordinate of the four anchors, the calculation ends at
  the boundary check: no position is reported and the stored position is unchanged.
\<close>

theorem outside_rectangle_rejected:
  "(length (anchor_x L) = 4 \<and> length (anchor_y L) = 4
      \<and> 0 < dist_to_a0 s \<and> 0 < dist_to_a1 s \<and> 0 < dist_to_a2 s \<and> 0 < dist_to_a3 s
      \<and> triangulate L s = Some (x, y)
      \<and> beyondAnchors (anchor_x L) (anchor_y L) x y
    \<longrightarrow> calculatePosition_display L s = (OutsideBoundaries, s))
 \<and> (length anc = 4 \<and> needsUpdate this \<and> 4 \<le> length (ranges this)
      \<and> 0 < ranges this ! 0 \<and> 0 < ranges this ! 1 \<and> 0 < ranges this ! 2 \<and> 0 < ranges this ! 3
      \<and> cal_average anc (ranges this) = Some (x, y)
      \<and> beyondAnchors (map loc_x anc) (map loc_y anc) x y
    \<longrightarrow> cal anc this = (OutsideBoundaries, this\<lparr>needsUpdate := False\<rparr>)
      \<and> loc_x (snd (cal anc this)) = loc_x this \<and> loc_y (snd (cal anc this)) = loc_y this
      \<and> status (snd (cal anc this)) = status this)
 \<and> \<not> valid_outcome OutsideBoundaries"
proof (intro conjI impI)
  assume h: "length (anchor_x L) = 4 \<and> length (anchor_y L) = 4
      \<and> 0 < dist_to_a0 s \<and> 0 < dist_to_a1 s \<and> 0 < dist_to_a2 s \<and> 0 < dist_to_a3 s
      \<and> triangulate L s = Some (x, y)
      \<and> beyondAnchors (anchor_x L) (anchor_y L) x y"
  have "anchor_x L ! 2 \<le> Max (set (anchor_x L))" "anchor_y L ! 1 \<le> Max (set (anchor_y L))"
    using h by (simp_all add: Max_nth_ge)
  with h have "x < 0 \<or> y < 0 \<or> x > anchor_x L ! 2 \<or> y > anchor_y L ! 1"
    unfolding beyondAnchors_def by linarith
  with h show "calculatePosition_display L s = (OutsideBoundaries, s)"
    by (simp add: calculatePosition_display_def)
next
  assume h: "length anc = 4 \<and> needsUpdate this \<and> 4 \<le> length (ranges this)
      \<and> 0 < ranges this ! 0 \<and> 0 < ranges this ! 1 \<and> 0 < ranges this ! 2 \<and> 0 < ranges this ! 3
      \<and> cal_average anc (ranges this) = Some (x, y)
      \<and> beyondAnchors (map loc_x anc) (map loc_y anc) x y"
  from h have len: "2 < length anc" "1 < length anc" by simp_all
  have "map loc_x anc ! 2 \<le> Max (set (map loc_x anc))"
    by (rule Max_nth_ge) (simp add: len)
  moreover have "map loc_y anc ! 1 \<le> Max (set (map loc_y anc))"
    by (rule Max_nth_ge) (use len in simp)
  ultimately have "loc_x (anc ! 2) \<le> Max (set (map loc_x anc))"
            "loc_y (anc ! 1) \<le> Max (set (map loc_y anc))"
    using len by (simp_all only: nth_map)
  with h have out: "x < 0 \<or> y < 0 \<or> x > loc_x (anc ! 2) \<or> y > loc_y (anc ! 1)"
    unfolding beyondAnchors_def by linarith
  from h have pos: "\<not> (length (ranges this) < 4 \<or> ranges this ! 0 \<le> 0 \<or> ranges this ! 1 \<le> 0
                      \<or> ranges this ! 2 \<le> 0 \<or> ranges this ! 3 \<le> 0)"
    by simp
  from h out pos show c: "cal anc this = (OutsideBoundaries, this\<lparr>needsUpdate := False\<rparr>)"
    by (simp add: cal_def Let_def del: One_nat_def)
  show "loc_x (snd (cal anc this)) = loc_x this" by (simp add: c)
  show "loc_y (snd (cal anc this)) = loc_y this" by (simp add: c)
  show "status (snd (cal anc this)) = status this" by (simp add: c)
next
  show "\<not> valid_outcome OutsideBoundaries" by (simp add: valid_outcome_def)
qed

theorem outside_rectangle_rejected_witness:
  "triangulate default_layout beyondWall = Some (-5, 300)
 \<and> beyondAnchors (anchor_x default_layout) (anchor_y default_layout) (-5) 300
 \<and> calculatePosition_display default_layout beyondWall = (OutsideBoundaries, beyondWall)
 \<and> positionX (snd (calculatePosition_display default_layout beyondWall)) = 0
 \<and> cal_average setup_anc (ranges beyondWallTag) = Some (-5, 300)
 \<and> beyondAnchors (map loc_x setup_anc) (map loc_y setup_anc) (-5) 300
 \<and> fst (cal setup_anc beyondWallTag) = OutsideBoundaries
 \<and> loc_x (snd (cal setup_anc beyondWallTag)) = 0
 \<and> status (snd (cal setup_anc beyondWallTag)) = False"
proof -
  have b1: "beyondAnchors (anchor_x default_layout) (anchor_y default_layout) (-5) 300"
    by (simp add: beyondAnchors_def)
  have b2: "beyondAnchors (map loc_x setup_anc) (map loc_y setup_anc) (-5) 300"
    by (simp add: beyondAnchors_def)
  have l: "length (anchor_x default_layout) = 4" "length (anchor_y default_layout) = 4"
    by (simp_all add: default_layout_fields)
  from outside_rectangle_rejected [of default_layout beyondWall "-5" 300]
    l beyondWall_distances beyondWall_triangulate b1
  have d: "calculatePosition_display default_layout beyondWall = (OutsideBoundaries, beyondWall)"
    by blast
  have p: "positionX beyondWall = 0"
    by (simp add: beyondWall_def idealDistances_def initial_display_def)
  from outside_rectangle_rejected [of _ _ "-5" 300 setup_anc beyondWallTag]
    setup_anc_fields(1) beyondWallTag_ranges beyondWallTag_average b2
  have c: "cal setup_anc beyondWallTag = (OutsideBoundaries, beyondWallTag\<lparr>needsUpdate := False\<rparr>)"
    by blast
  have t: "loc_x beyondWallTag = 0" "status beyondWallTag = False"
    by (simp_all add: beyondWallTag_def UWB_def)
  show ?thesis
    using beyondWall_triangulate b1 b2 beyondWallTag_average
    by (simp add: d p c t)
qed

subsection \<open>The query \<open>hasValidPosition\<close>\<close>

lemma updatePositionHistory_current:
  "updatePositionHistory x y t = Some t' \<Longrightarrow> currentX t' = currentX t \<and> currentY t' = currentY t"
  by (auto simp add: updatePositionHistory_def Let_def split: if_splits)

lemma firstPosition_none:
  "fst (firstPosition t ts) = NoValidSolutions \<Longrightarrow> snd (firstPosition t ts) = t"
  by (induction t ts rule: firstPosition.induct)
     (auto split: if_splits option.splits prod.splits)

lemma firstPosition_position:
  "fst (firstPosition t ts) = Position x y \<Longrightarrow>
     currentX (snd (firstPosition t ts)) = x \<and> currentY (snd (firstPosition t ts)) = y"
  by (induction t ts rule: firstPosition.induct)
     (auto split: if_splits option.splits prod.splits dest: updatePositionHistory_current)

lemma MaUWB_TAG_fields:
  "numAnchors MaUWB_TAG = 4" "currentX MaUWB_TAG = 0" "currentY MaUWB_TAG = 0"
  "anchorX MaUWB_TAG = [0, 0, 380, 380, 0, 0, 0, 0, 0, 0]"
  "anchorY MaUWB_TAG = [0, 600, 600, 0, 0, 0, 0, 0, 0, 0]"
  "distances MaUWB_TAG = [0, 0, 0, 0, 0, 0, 0, 0, 0, 0]"
  "positionHistoryLength MaUWB_TAG = 5"
  by (simp_all add: MaUWB_TAG_def setDefaultAnchors_def setAnchorPosition_def MAX_ANCHORS_def
        eval_nat_numeral)

lemma tagAtOrigin_position:
  "fst (calculatePosition_tag tagAtOrigin) = Position 0 0"
  by (simp add: calculatePosition_tag_def tagAtOrigin_def MaUWB_TAG_fields triplets_4
        calculatePositionFromTriplet_def calculateDistance_def updatePositionHistory_def
        Let_def)

text \<open>
  Claim C10. \<open>hasValidPosition\<close> of the header class is true exactly when the stored
  position is not the origin. It is false on the constructed object, whatever distances
  it has received, and stays as it was over a calculation that finds no position; and it
  is false after a calculation whose position is exactly (0, 0).
\<close>

theorem hasValidPosition_iff_not_origin:
  "(hasValidPosition t \<longleftrightarrow> currentX t \<noteq> 0 \<or> currentY t \<noteq> 0)
 \<and> \<not> hasValidPosition (MaUWB_TAG\<lparr>distances := d\<rparr>)
 \<and> (fst (calculatePosition_tag t) = NoValidSolutions \<longrightarrow>
      hasValidPosition (snd (calculatePosition_tag t)) = hasValidPosition t)
 \<and> (fst (calculatePosition_tag t) = Position x y \<longrightarrow>
      (hasValidPosition (snd (calculatePosition_tag t)) \<longleftrightarrow> x \<noteq> 0 \<or> y \<noteq> 0))
 \<and> (fst (calculatePosition_tag t) = Position 0 0 \<longrightarrow>
      \<not> hasValidPosition (snd (calculatePosition_tag t)))"
proof (intro conjI impI)
  show "hasValidPosition t \<longleftrightarrow> currentX t \<noteq> 0 \<or> currentY t \<noteq> 0"
    by (simp add: hasValidPosition_def)
  show "\<not> hasValidPosition (MaUWB_TAG\<lparr>distances := d\<rparr>)"
    by (simp add: hasValidPosition_def MaUWB_TAG_fields)
next
  assume "fst (calculatePosition_tag t) = NoValidSolutions"
  then have "snd (calculatePosition_tag t) = t"
    unfolding calculatePosition_tag_def by (rule firstPosition_none)
  then show "hasValidPosition (snd (calculatePosition_tag t)) = hasValidPosition t"
    by simp
next
  assume "fst (calculatePosition_tag t) = Position x y"
  then show "hasValidPosition (snd (calculatePosition_tag t)) \<longleftrightarrow> x \<noteq> 0 \<or> y \<noteq> 0"
    unfolding calculatePosition_tag_def hasValidPosition_def
    by (simp add: firstPosition_position)
next
  assume "fst (calculatePosition_tag t) = Position 0 0"
  then show "\<not> hasValidPosition (snd (calculatePosition_tag t))"
    unfolding calculatePosition_tag_def hasValidPosition_def
    by (simp add: firstPosition_position)
qed

theorem hasValidPosition_iff_not_origin_witness:
  "fst (calculatePosition_tag MaUWB_TAG) = NoValidSolutions
 \<and> \<not> hasValidPosition (snd (calculatePosition_tag MaUWB_TAG))
 \<and> fst (calculatePosition_tag tagAtOrigin) = Position 0 0
 \<and> \<not> hasValidPosition (snd (calculatePosition_tag tagAtOrigin))
 \<and> 0 \<le> (0::real) \<and> (0::real) \<le> anchorX tagAtOrigin ! 2 \<and> (0::real) \<le> anchorY tagAtOrigin ! 1"
proof -
  have n: "fst (calculatePosition_tag MaUWB_TAG) = NoValidSolutions"
    by (simp add: calculatePosition_tag_def MaUWB_TAG_fields triplets_4)
  have e: "MaUWB_TAG\<lparr>distances := distances MaUWB_TAG\<rparr> = MaUWB_TAG"
    by simp
  from hasValidPosition_iff_not_origin [of MaUWB_TAG "distances MaUWB_TAG"] n
  have a: "\<not> hasValidPosition (snd (calculatePosition_tag MaUWB_TAG))"
    by (simp only: e) blast
  from hasValidPosition_iff_not_origin [of tagAtOrigin] tagAtOrigin_position
  have b: "\<not> hasValidPosition (snd (calculatePosition_tag tagAtOrigin))"
    by blast
  show ?thesis
    using n a b tagAtOrigin_position
    by (simp add: tagAtOrigin_def MaUWB_TAG_fields)
qed

end
